theory Spec2Isabelle
  imports Main "HOL-Library.Sublist"
begin

section \<open>The render engines of unrolled/render (engine.go)\<close>

text \<open>
  The file \<^verbatim>\<open>vendor/github.com/unrolled/render/engine.go\<close> holds six renderers
  (Data, HTML, JSON, JSONP, Text, XML) and the shared header writer \<^verbatim>\<open>Head.Write\<close>.
  Each renderer is embedded as a function from the sink (and, for HTML, the buffer pool)
  to the sink after the call and the outcome of the call. Go's \<^verbatim>\<open>[]byte\<close> and \<^verbatim>\<open>string\<close>
  are both byte sequences, modelled as \<^typ>\<open>char list\<close>.
\<close>

subsection \<open>Values, errors and outcomes\<close>

type_synonym bytes = "char list"

text \<open>Go's \<^verbatim>\<open>error\<close> interface: an opaque value carrying a message.\<close>

datatype error = Error string

text \<open>
  The \<^verbatim>\<open>interface{}\<close> argument of \<^verbatim>\<open>Render\<close>: a value whose dynamic type is
  \<^verbatim>\<open>[]byte\<close>, \<^verbatim>\<open>string\<close>, or anything else.
\<close>

datatype 'a iface = BytesVal bytes | StringVal string | OtherVal 'a

text \<open>
  A call either returns its \<^verbatim>\<open>error\<close> result (\<open>None\<close> is \<^verbatim>\<open>nil\<close>) or panics:
  the unchecked type assertions \<^verbatim>\<open>v.([]byte)\<close> and \<^verbatim>\<open>v.(string)\<close> panic at run time when
  the dynamic type differs.
\<close>

datatype outcome = Return "error option" | Panic string

definition newline :: char where
  "newline = CHR 0x0A"

definition backslash :: char where
  "backslash = CHR 0x5C"

subsection \<open>The sink: \<^verbatim>\<open>io.Writer\<close>, possibly an \<^verbatim>\<open>http.ResponseWriter\<close>\<close>

text \<open>
  The calls a renderer can make on its sink, in the order they are made.
\<close>

datatype event = HeaderSet string string | StatusWritten int | BodyWrite bytes

text \<open>
  \<open>capable\<close> says whether the type assertion \<^verbatim>\<open>w.(http.ResponseWriter)\<close> succeeds;
  \<open>hdr\<close> is the header map behind \<^verbatim>\<open>Header()\<close>; \<open>wr_err\<close> is the error with which the
  sink rejects writes (\<open>None\<close>: it accepts them); \<open>written\<close> holds the accepted body
  bytes and \<open>trace\<close> every call made on the sink.
\<close>

record sink =
  capable :: bool
  hdr :: "string \<rightharpoonup> string"
  wr_err :: "error option"
  written :: bytes
  trace :: "event list"

text \<open>
  Modelled from the spec: the header name constant \<^verbatim>\<open>ContentType\<close> is declared outside
  engine.go; it names the content-type header field.
\<close>

definition ContentTypeKey :: string where
  "ContentTypeKey = ''Content-Type''"

text \<open>\<^verbatim>\<open>Header().Get(k)\<close>: the value, or the empty string when the field is absent.\<close>

definition Header_Get :: "sink \<Rightarrow> string \<Rightarrow> string" where
  "Header_Get w k = (case hdr w k of None \<Rightarrow> [] | Some c \<Rightarrow> c)"

definition Header_Set :: "string \<Rightarrow> string \<Rightarrow> sink \<Rightarrow> sink" where
  "Header_Set k c w = w\<lparr>hdr := (hdr w)(k \<mapsto> c), trace := trace w @ [HeaderSet k c]\<rparr>"

definition WriteHeader :: "int \<Rightarrow> sink \<Rightarrow> sink" where
  "WriteHeader st w = w\<lparr>trace := trace w @ [StatusWritten st]\<rparr>"

text \<open>\<^verbatim>\<open>w.Write(p)\<close>: the sink after the call and the error it returns.\<close>

definition Write :: "bytes \<Rightarrow> sink \<Rightarrow> sink \<times> error option" where
  "Write p w =
     (case wr_err w of
        None \<Rightarrow> (w\<lparr>written := written w @ p, trace := trace w @ [BodyWrite p]\<rparr>, None)
      | Some e \<Rightarrow> (w\<lparr>trace := trace w @ [BodyWrite p]\<rparr>, Some e))"

subsection \<open>Renderer configurations\<close>

record Head =
  ContentType :: string
  Status :: int

type_synonym Data = Head

type_synonym Text = Head

record 'a HTML = Head +
  Name :: string
  Templates :: "string \<Rightarrow> 'a iface \<Rightarrow> bytes \<times> error option"

record JSON = Head +
  Indent :: bool
  UnEscapeHTML :: bool
  Prefix :: bytes
  StreamingJSON :: bool

record JSONP = Head +
  Indent :: bool
  Callback :: string

record XML = Head +
  Indent :: bool
  Prefix :: bytes

subsection \<open>Collaborators outside engine.go\<close>

text \<open>
  The serializers of Go's standard library are parameters of the model. Each returns the
  pair \<^verbatim>\<open>(result, err)\<close> as in Go; \<^verbatim>\<open>MarshalIndent\<close> also takes its prefix and indent
  strings.
\<close>

record 'a stdlib =
  json_Marshal :: "'a iface \<Rightarrow> bytes \<times> error option"
  json_MarshalIndent :: "'a iface \<Rightarrow> string \<Rightarrow> string \<Rightarrow> bytes \<times> error option"
  xml_Marshal :: "'a iface \<Rightarrow> bytes \<times> error option"
  xml_MarshalIndent :: "'a iface \<Rightarrow> string \<Rightarrow> string \<Rightarrow> bytes \<times> error option"

text \<open>
  \<^verbatim>\<open>bytes.Replace(s, old, new, -1)\<close> for a non-empty \<open>old\<close>: every non-overlapping
  instance of \<open>old\<close>, found from left to right, is replaced by \<open>new\<close>. (With an empty
  \<open>old\<close>, which the renderers never pass, this model returns \<open>s\<close>.)
\<close>

fun bytes_Replace :: "bytes \<Rightarrow> bytes \<Rightarrow> bytes \<Rightarrow> bytes" where
  "bytes_Replace [] old new = []"
| "bytes_Replace (x # xs) old new =
     (if old \<noteq> [] \<and> prefix old (x # xs)
      then new @ bytes_Replace (drop (length old - 1) xs) old new
      else x # bytes_Replace xs old new)"

text \<open>
  \<^verbatim>\<open>json.NewEncoder(w).Encode(v)\<close>: the value is serialized as \<^verbatim>\<open>json.Marshal\<close> does;
  on failure nothing is written and the error is returned, otherwise the serialization
  followed by a newline goes to \<open>w\<close> in one write, whose error is the result.
\<close>

definition json_Encoder_Encode :: "'a stdlib \<Rightarrow> sink \<Rightarrow> 'a iface \<Rightarrow> sink \<times> error option" where
  "json_Encoder_Encode env w v =
     (case json_Marshal env v of
        (b, Some e) \<Rightarrow> (w, Some e)
      | (b, None) \<Rightarrow> Write (b @ [newline]) w)"

text \<open>
  \<^verbatim>\<open>ExecuteTemplate(out, name, binding)\<close>: the template set maps a name and a binding to
  the bytes it emits and the error it ends with; the bytes (all of them, or those emitted
  before the failure) are appended to the buffer \<open>out\<close>.
\<close>

definition ExecuteTemplate ::
  "(string \<Rightarrow> 'a iface \<Rightarrow> bytes \<times> error option) \<Rightarrow> bytes \<Rightarrow> string \<Rightarrow> 'a iface
     \<Rightarrow> bytes \<times> error option" where
  "ExecuteTemplate t out name binding =
     (case t name binding of (emitted, err) \<Rightarrow> (out @ emitted, err))"

text \<open>
  \<^verbatim>\<open>out.WriteTo(w)\<close> of \<^verbatim>\<open>bytes.Buffer\<close>: a non-empty buffer is written to \<open>w\<close> in one
  write; an empty one makes no call on \<open>w\<close>.
\<close>

definition Buffer_WriteTo :: "bytes \<Rightarrow> sink \<Rightarrow> sink \<times> error option" where
  "Buffer_WriteTo out w = (if length out > 0 then Write out w else (w, None))"

subsection \<open>The buffer pool\<close>

text \<open>
  Modelled from the spec: the pool \<^verbatim>\<open>bufPool\<close> and its \<^verbatim>\<open>Get\<close> and \<^verbatim>\<open>Put\<close> are declared
  outside engine.go. The spec describes a reusable pool of growable byte buffers: a call
  acquires a buffer, owns it exclusively until it releases it, and the pool holds the
  buffers that are not lent out. \<open>idle\<close> counts the buffers resting in the pool, \<open>lent\<close>
  those acquired and not yet released. \<^verbatim>\<open>Get\<close> hands out an idle buffer, or a fresh one
  when none is idle; the buffer handed out is empty. \<^verbatim>\<open>Put\<close> takes the buffer back.
\<close>

record pool =
  idle :: nat
  lent :: nat

definition bufPool_Get :: "pool \<Rightarrow> bytes \<times> pool" where
  "bufPool_Get p =
     ([], p\<lparr>idle := (if idle p > 0 then idle p - 1 else 0), lent := lent p + 1\<rparr>)"

definition bufPool_Put :: "bytes \<Rightarrow> pool \<Rightarrow> pool" where
  "bufPool_Put out p =
     p\<lparr>idle := idle p + 1, lent := (if lent p > 0 then lent p - 1 else 0)\<rparr>"

subsection \<open>The header writer\<close>

text \<open>\<^verbatim>\<open>Head.Write\<close>: set the content-type field, then write the status code.\<close>

definition Head_Write :: "'h Head_scheme \<Rightarrow> sink \<Rightarrow> sink" where
  "Head_Write h w = WriteHeader (Status h) (Header_Set ContentTypeKey (ContentType h) w)"

subsection \<open>The renderers\<close>

definition Data_Render :: "Data \<Rightarrow> sink \<Rightarrow> 'a iface \<Rightarrow> sink \<times> outcome" where
  "Data_Render d w v =
     (let w1 = (if capable w
                then (let c = Header_Get w ContentTypeKey;
                          d1 = (if c \<noteq> [] then d\<lparr>ContentType := c\<rparr> else d)
                      in Head_Write d1 w)
                else w)
      in (case v of
            BytesVal b \<Rightarrow> (fst (Write b w1), Return None)
          | _ \<Rightarrow> (w1, Panic ''interface conversion: interface {} is not []uint8'')))"

definition HTML_Render :: "'a HTML \<Rightarrow> pool \<Rightarrow> sink \<Rightarrow> 'a iface \<Rightarrow> pool \<times> sink \<times> outcome" where
  "HTML_Render h p w binding =
     (case bufPool_Get p of (out, p1) \<Rightarrow>
        (case ExecuteTemplate (Templates h) out (Name h) binding of
           (out1, Some err) \<Rightarrow> (p1, w, Return (Some err))
         | (out1, None) \<Rightarrow>
             (let w1 = (if capable w then Head_Write h w else w);
                  w2 = fst (Buffer_WriteTo out1 w1)
              in (bufPool_Put out1 p1, w2, Return None))))"

text \<open>
  The escape sequences for \<^verbatim>\<open><\<close>, \<^verbatim>\<open>>\<close> and \<^verbatim>\<open>&\<close> that the JSON
  renderer looks for, and the three replacements of lines 123 to 125 in their order.
\<close>

definition esc_lt :: bytes where
  "esc_lt = backslash # ''u003c''"

definition esc_gt :: bytes where
  "esc_gt = backslash # ''u003e''"

definition esc_amp :: bytes where
  "esc_amp = backslash # ''u0026''"

definition unescape :: "bytes \<Rightarrow> bytes" where
  "unescape result =
     bytes_Replace (bytes_Replace (bytes_Replace result esc_lt ''<'') esc_gt ''>'') esc_amp ''&''"

definition renderStreamingJSON :: "'a stdlib \<Rightarrow> JSON \<Rightarrow> sink \<Rightarrow> 'a iface \<Rightarrow> sink \<times> outcome" where
  "renderStreamingJSON env j w v =
     (let w1 = (if capable w then Head_Write j w else w);
          w2 = (if length (JSON.Prefix j) > 0 then fst (Write (JSON.Prefix j) w1) else w1)
      in (case json_Encoder_Encode env w2 v of (w3, err) \<Rightarrow> (w3, Return err)))"

definition JSON_Render :: "'a stdlib \<Rightarrow> JSON \<Rightarrow> sink \<Rightarrow> 'a iface \<Rightarrow> sink \<times> outcome" where
  "JSON_Render env j w v =
     (if StreamingJSON j then renderStreamingJSON env j w v
      else
        (case (if JSON.Indent j
               then (case json_MarshalIndent env v [] ''  '' of (r, e) \<Rightarrow> (r @ [newline], e))
               else json_Marshal env v) of
           (result, Some err) \<Rightarrow> (w, Return (Some err))
         | (result, None) \<Rightarrow>
             (let result1 = (if UnEscapeHTML j then unescape result else result);
                  w1 = (if capable w then Head_Write j w else w);
                  w2 = (if length (JSON.Prefix j) > 0 then fst (Write (JSON.Prefix j) w1) else w1)
              in (fst (Write result1 w2), Return None))))"

definition JSONP_Render :: "'a stdlib \<Rightarrow> JSONP \<Rightarrow> sink \<Rightarrow> 'a iface \<Rightarrow> sink \<times> outcome" where
  "JSONP_Render env j w v =
     (case (if JSONP.Indent j then json_MarshalIndent env v [] ''  '' else json_Marshal env v) of
        (result, Some err) \<Rightarrow> (w, Return (Some err))
      | (result, None) \<Rightarrow>
          (let w1 = (if capable w then Head_Write j w else w);
               w2 = fst (Write (Callback j @ ''('') w1);
               w3 = fst (Write result w2);
               w4 = fst (Write '');'' w3);
               w5 = (if JSONP.Indent j then fst (Write [newline] w4) else w4)
           in (w5, Return None)))"

definition Text_Render :: "Text \<Rightarrow> sink \<Rightarrow> 'a iface \<Rightarrow> sink \<times> outcome" where
  "Text_Render t w v =
     (let w1 = (if capable w
                then (let c = Header_Get w ContentTypeKey;
                          t1 = (if c \<noteq> [] then t\<lparr>ContentType := c\<rparr> else t)
                      in Head_Write t1 w)
                else w)
      in (case v of
            StringVal s \<Rightarrow> (fst (Write s w1), Return None)
          | _ \<Rightarrow> (w1, Panic ''interface conversion: interface {} is not string'')))"

definition XML_Render :: "'a stdlib \<Rightarrow> XML \<Rightarrow> sink \<Rightarrow> 'a iface \<Rightarrow> sink \<times> outcome" where
  "XML_Render env x w v =
     (case (if XML.Indent x
            then (case xml_MarshalIndent env v [] ''  '' of (r, e) \<Rightarrow> (r @ [newline], e))
            else xml_Marshal env v) of
        (result, Some err) \<Rightarrow> (w, Return (Some err))
      | (result, None) \<Rightarrow>
          (let w1 = (if capable w then Head_Write x w else w);
               w2 = (if length (XML.Prefix x) > 0 then fst (Write (XML.Prefix x) w1) else w1)
           in (fst (Write result w2), Return None)))"

subsection \<open>Observing a call\<close>

text \<open>The calls a render made on its sink: the part of the trace added by the call.\<close>

definition new_events :: "sink \<Rightarrow> sink \<Rightarrow> event list" where
  "new_events w w' = drop (length (trace w)) (trace w')"

fun payload :: "event \<Rightarrow> bytes" where
  "payload (BodyWrite p) = p"
| "payload (HeaderSet k c) = []"
| "payload (StatusWritten st) = []"

fun is_body_write :: "event \<Rightarrow> bool" where
  "is_body_write (BodyWrite p) = True"
| "is_body_write (HeaderSet k c) = False"
| "is_body_write (StatusWritten st) = False"

text \<open>The body bytes a render sent to its sink, in order.\<close>

definition body_sent :: "sink \<Rightarrow> sink \<Rightarrow> bytes" where
  "body_sent w w' = concat (map payload (new_events w w'))"

text \<open>
  The calls start with the one header write (content-type \<open>c\<close> set, then status \<open>st\<close>
  written) and everything after it is a body write.
\<close>

definition header_then_body :: "string \<Rightarrow> int \<Rightarrow> event list \<Rightarrow> bool" where
  "header_then_body c st evs =
     (take 2 evs = [HeaderSet ContentTypeKey c, StatusWritten st]
      \<and> list_all is_body_write (drop 2 evs))"

text \<open>The serialization step of the JSON and JSONP renderers, and of the XML renderer.\<close>

definition json_serialize :: "'a stdlib \<Rightarrow> bool \<Rightarrow> 'a iface \<Rightarrow> bytes \<times> error option" where
  "json_serialize env indent v =
     (if indent then json_MarshalIndent env v [] ''  '' else json_Marshal env v)"

definition xml_serialize :: "'a stdlib \<Rightarrow> bool \<Rightarrow> 'a iface \<Rightarrow> bytes \<times> error option" where
  "xml_serialize env indent v =
     (if indent then xml_MarshalIndent env v [] ''  '' else xml_Marshal env v)"

text \<open>
  The unescaping as the specification words it: reading from left to right, every
  occurrence of one of the three escape sequences is replaced by the character it stands
  for, and every other byte is kept.
\<close>

fun unescape_all :: "bytes \<Rightarrow> bytes" where
  "unescape_all [] = []"
| "unescape_all (x # xs) =
     (if prefix esc_lt (x # xs) then CHR ''<'' # unescape_all (drop 5 xs)
      else if prefix esc_gt (x # xs) then CHR ''>'' # unescape_all (drop 5 xs)
      else if prefix esc_amp (x # xs) then CHR ''&'' # unescape_all (drop 5 xs)
      else x # unescape_all xs)"

text \<open>
  A byte sequence free of the backslash and of the three characters the unescaping
  produces: the tail of an escape sequence is one.
\<close>

definition plain_tail :: "bytes \<Rightarrow> bool" where
  "plain_tail p =
     (CHR 0x5C \<notin> set p \<and> CHR ''<'' \<notin> set p \<and> CHR ''>'' \<notin> set p \<and> CHR ''&'' \<notin> set p)"

text \<open>The number of newline bytes at the end of a byte sequence.\<close>

definition trailing_newlines :: "bytes \<Rightarrow> nat" where
  "trailing_newlines bs = length (takeWhile (\<lambda>c. c = newline) (rev bs))"

text \<open>
  The header write as it shows in the trace of a sink (nothing on a sink without header
  capability), and the write of a prefix (no call when the prefix is empty).
\<close>

definition header_events :: "bool \<Rightarrow> string \<Rightarrow> int \<Rightarrow> event list" where
  "header_events cap c st = (if cap then [HeaderSet ContentTypeKey c, StatusWritten st] else [])"

definition prefix_events :: "bytes \<Rightarrow> event list" where
  "prefix_events p = (if p = [] then [] else [BodyWrite p])"

text \<open>
  The bytes the buffered JSON renderer writes after the prefix, from the serializer's
  result \<open>r\<close>.
\<close>

definition JSON_payload :: "JSON \<Rightarrow> bytes \<Rightarrow> bytes" where
  "JSON_payload j r =
     (if UnEscapeHTML j then unescape (if JSON.Indent j then r @ [newline] else r)
      else (if JSON.Indent j then r @ [newline] else r))"

text \<open>
  The content type the Data and Text renderers send: the one on the sink when it is not
  empty, the configured one otherwise.
\<close>

definition effective_type :: "Head \<Rightarrow> sink \<Rightarrow> string" where
  "effective_type d w =
     (if Header_Get w ContentTypeKey \<noteq> [] then Header_Get w ContentTypeKey else ContentType d)"

fun is_bytes :: "'a iface \<Rightarrow> bool" where
  "is_bytes (BytesVal b) = True"
| "is_bytes (StringVal s) = False"
| "is_bytes (OtherVal x) = False"

fun is_string :: "'a iface \<Rightarrow> bool" where
  "is_string (StringVal s) = True"
| "is_string (BytesVal b) = False"
| "is_string (OtherVal x) = False"

fun is_panic :: "outcome \<Rightarrow> bool" where
  "is_panic (Panic msg) = True"
| "is_panic (Return e) = False"

subsection \<open>Example inputs\<close>

text \<open>
  Four values and what the serializers return for them: a record with the one field
  \<open>a = 1\<close>, the string \<^verbatim>\<open><b>&\<close>, whose JSON serialization escapes the three
  characters, a channel, which no serializer accepts, and a value of a type with its own
  \<^verbatim>\<open>MarshalXML\<close> method, which emits the element \<^verbatim>\<open><NL>x</NL>\<close> and then a newline
  as character data (its JSON serialization is the empty object).
\<close>

datatype ex_val = RecA1 | Markup | Chan | Trailer

definition ex_markup_json :: bytes where
  "ex_markup_json = ''\"'' @ esc_lt @ ''b'' @ esc_gt @ esc_amp @ ''\"''"

definition ex_json :: "ex_val iface \<Rightarrow> bytes \<times> error option" where
  "ex_json v =
     (case v of
        OtherVal RecA1 \<Rightarrow> (''{\"a\":1}'', None)
      | OtherVal Markup \<Rightarrow> (ex_markup_json, None)
      | OtherVal Trailer \<Rightarrow> (''{}'', None)
      | _ \<Rightarrow> ([], Some (Error ''json: unsupported type'')))"

definition ex_json_indent :: "ex_val iface \<Rightarrow> string \<Rightarrow> string \<Rightarrow> bytes \<times> error option" where
  "ex_json_indent v pre ind =
     (case v of
        OtherVal RecA1 \<Rightarrow> (''{'' @ newline # pre @ ind @ ''\"a\": 1'' @ newline # pre @ ''}'', None)
      | OtherVal Markup \<Rightarrow> (ex_markup_json, None)
      | OtherVal Trailer \<Rightarrow> (''{}'', None)
      | _ \<Rightarrow> ([], Some (Error ''json: unsupported type'')))"

definition ex_xml :: "ex_val iface \<Rightarrow> bytes \<times> error option" where
  "ex_xml v =
     (case v of
        OtherVal RecA1 \<Rightarrow> (''<R><a>1</a></R>'', None)
      | OtherVal Markup \<Rightarrow> (''<string>&lt;b&gt;&amp;</string>'', None)
      | OtherVal Trailer \<Rightarrow> (''<NL>x</NL>'' @ [newline], None)
      | _ \<Rightarrow> ([], Some (Error ''xml: unsupported type'')))"

definition ex_xml_indent :: "ex_val iface \<Rightarrow> string \<Rightarrow> string \<Rightarrow> bytes \<times> error option" where
  "ex_xml_indent v pre ind =
     (case v of
        OtherVal RecA1 \<Rightarrow>
          (pre @ ''<R>'' @ newline # pre @ ind @ ''<a>1</a>'' @ newline # pre @ ''</R>'', None)
      | OtherVal Markup \<Rightarrow> (pre @ ''<string>&lt;b&gt;&amp;</string>'', None)
      | OtherVal Trailer \<Rightarrow> (pre @ ''<NL>x</NL>'' @ [newline], None)
      | _ \<Rightarrow> ([], Some (Error ''xml: unsupported type'')))"

definition ex_stdlib :: "ex_val stdlib" where
  "ex_stdlib =
     \<lparr>json_Marshal = ex_json, json_MarshalIndent = ex_json_indent,
      xml_Marshal = ex_xml, xml_MarshalIndent = ex_xml_indent\<rparr>"

text \<open>
  A template set with the template \<open>page\<close>, which emits a fixed page for the record and
  fails after emitting part of its output for any other binding; no other name is defined.
\<close>

definition ex_templates :: "string \<Rightarrow> ex_val iface \<Rightarrow> bytes \<times> error option" where
  "ex_templates name binding =
     (if name = ''page''
      then (case binding of
              OtherVal RecA1 \<Rightarrow> (''<p>1</p>'', None)
            | _ \<Rightarrow> (''<p>'', Some (Error ''template: cannot evaluate field a'')))
      else ([], Some (Error ''html/template: template is undefined'')))"

text \<open>
  A response writer that already carries the content type \<open>text/custom\<close>, a plain writer
  without header capability, and a response writer whose connection is gone.
\<close>

definition ex_response :: sink where
  "ex_response =
     \<lparr>capable = True, hdr = [ContentTypeKey \<mapsto> ''text/custom''], wr_err = None,
      written = [], trace = []\<rparr>"

definition ex_buffer :: sink where
  "ex_buffer = \<lparr>capable = False, hdr = Map.empty, wr_err = None, written = [], trace = []\<rparr>"

definition ex_broken :: sink where
  "ex_broken =
     \<lparr>capable = True, hdr = Map.empty, wr_err = Some (Error ''write: connection reset''),
      written = [], trace = []\<rparr>"

definition ex_head :: Head where
  "ex_head = \<lparr>ContentType = ''application/octet-stream'', Status = 200\<rparr>"

definition ex_HTML :: "ex_val HTML" where
  "ex_HTML =
     \<lparr>ContentType = ''text/html'', Status = 200, Name = ''page'', Templates = ex_templates\<rparr>"

definition ex_JSON :: JSON where
  "ex_JSON =
     \<lparr>ContentType = ''application/json'', Status = 200, JSON.Indent = False,
      UnEscapeHTML = False, JSON.Prefix = [], StreamingJSON = False\<rparr>"

definition ex_JSONP :: JSONP where
  "ex_JSONP =
     \<lparr>ContentType = ''application/javascript'', Status = 200, JSONP.Indent = False,
      Callback = ''cb''\<rparr>"

definition ex_XML :: XML where
  "ex_XML =
     \<lparr>ContentType = ''text/xml'', Status = 200, XML.Indent = False, XML.Prefix = []\<rparr>"

section \<open>Basic facts about the sink and the renderers\<close>


lemma Write_fst [simp]:
  "trace (fst (Write p w)) = trace w @ [BodyWrite p]"
  "capable (fst (Write p w)) = capable w"
  "hdr (fst (Write p w)) = hdr w"
  "wr_err (fst (Write p w)) = wr_err w"
  "written (fst (Write p w)) = (if wr_err w = None then written w @ p else written w)"
  by (simp_all add: Write_def split: option.splits)

lemma Write_snd [simp]: "snd (Write p w) = wr_err w"
  by (simp add: Write_def split: option.splits)

lemma Head_Write_sel [simp]:
  "trace (Head_Write h w) = trace w @ [HeaderSet ContentTypeKey (ContentType h), StatusWritten (Status h)]"
  "capable (Head_Write h w) = capable w"
  "hdr (Head_Write h w) = (hdr w)(ContentTypeKey \<mapsto> ContentType h)"
  "wr_err (Head_Write h w) = wr_err w"
  "written (Head_Write h w) = written w"
  by (simp_all add: Head_Write_def WriteHeader_def Header_Set_def)

lemma new_events_app: "trace w' = trace w @ evs \<Longrightarrow> new_events w w' = evs"
  by (simp add: new_events_def)

lemma new_events_same [simp]: "new_events w w = []"
  by (simp add: new_events_def)

lemma Data_Render_trace:
  "trace (fst (Data_Render d w v)) =
     trace w @ header_events (capable w) (effective_type d w) (Status d)
       @ (case v of BytesVal b \<Rightarrow> [BodyWrite b] | _ \<Rightarrow> [])"
  by (simp add: Data_Render_def Let_def header_events_def effective_type_def split: iface.splits)

lemma Text_Render_trace:
  "trace (fst (Text_Render d w v)) =
     trace w @ header_events (capable w) (effective_type d w) (Status d)
       @ (case v of StringVal b \<Rightarrow> [BodyWrite b] | _ \<Rightarrow> [])"
  by (simp add: Text_Render_def Let_def header_events_def effective_type_def split: iface.splits)

lemma JSON_Render_fail:
  "\<not> StreamingJSON j \<Longrightarrow> snd (json_serialize env (JSON.Indent j) v) = Some e
     \<Longrightarrow> JSON_Render env j w v = (w, Return (Some e))"
  by (auto simp: JSON_Render_def json_serialize_def split: prod.splits option.splits if_splits)

lemma JSON_Render_ok_trace:
  "\<not> StreamingJSON j \<Longrightarrow> json_serialize env (JSON.Indent j) v = (r, None)
     \<Longrightarrow> trace (fst (JSON_Render env j w v)) =
          trace w @ header_events (capable w) (ContentType j) (Status j)
            @ prefix_events (JSON.Prefix j) @ [BodyWrite (JSON_payload j r)]"
  by (auto simp: JSON_Render_def json_serialize_def Let_def header_events_def prefix_events_def
        JSON_payload_def split: prod.splits option.splits if_splits)

lemma JSON_Render_ok_ret:
  "\<not> StreamingJSON j \<Longrightarrow> snd (json_serialize env (JSON.Indent j) v) = None
     \<Longrightarrow> snd (JSON_Render env j w v) = Return None"
  by (auto simp: JSON_Render_def json_serialize_def Let_def split: prod.splits option.splits if_splits)

lemma JSON_Render_ok_hdr:
  "\<not> StreamingJSON j \<Longrightarrow> snd (json_serialize env (JSON.Indent j) v) = None
     \<Longrightarrow> hdr (fst (JSON_Render env j w v)) =
          (if capable w then (hdr w)(ContentTypeKey \<mapsto> ContentType j) else hdr w)"
  by (auto simp: JSON_Render_def json_serialize_def Let_def split: prod.splits option.splits if_splits)

lemma streaming_trace:
  "StreamingJSON j \<Longrightarrow>
     trace (fst (JSON_Render env j w v)) =
       trace w @ header_events (capable w) (ContentType j) (Status j)
         @ prefix_events (JSON.Prefix j)
         @ (case json_Marshal env v of (b, None) \<Rightarrow> [BodyWrite (b @ [newline])] | (b, Some e) \<Rightarrow> [])"
  by (cases "json_Marshal env v")
     (simp add: JSON_Render_def renderStreamingJSON_def json_Encoder_Encode_def Let_def
        header_events_def prefix_events_def split_def split: option.splits)

lemma streaming_ret:
  "StreamingJSON j \<Longrightarrow>
     snd (JSON_Render env j w v) =
       Return (case snd (json_Marshal env v) of Some e \<Rightarrow> Some e | None \<Rightarrow> wr_err w)"
  by (cases "json_Marshal env v")
     (simp add: JSON_Render_def renderStreamingJSON_def json_Encoder_Encode_def Let_def
        split_def split: option.splits)

lemma streaming_hdr:
  "StreamingJSON j \<Longrightarrow>
     hdr (fst (JSON_Render env j w v)) =
       (if capable w then (hdr w)(ContentTypeKey \<mapsto> ContentType j) else hdr w)"
  by (cases "json_Marshal env v")
     (simp add: JSON_Render_def renderStreamingJSON_def json_Encoder_Encode_def Let_def
        split_def split: option.splits)

lemma JSONP_Render_fail:
  "snd (json_serialize env (JSONP.Indent j) v) = Some e
     \<Longrightarrow> JSONP_Render env j w v = (w, Return (Some e))"
  by (auto simp: JSONP_Render_def json_serialize_def split: prod.splits option.splits if_splits)

lemma JSONP_Render_ok_trace:
  "json_serialize env (JSONP.Indent j) v = (r, None)
     \<Longrightarrow> trace (fst (JSONP_Render env j w v)) =
          trace w @ header_events (capable w) (ContentType j) (Status j)
            @ [BodyWrite (Callback j @ ''(''), BodyWrite r, BodyWrite '');'']
            @ (if JSONP.Indent j then [BodyWrite [newline]] else [])"
  by (auto simp: JSONP_Render_def json_serialize_def Let_def header_events_def
        split: prod.splits option.splits if_splits)

lemma JSONP_Render_ok_ret:
  "snd (json_serialize env (JSONP.Indent j) v) = None
     \<Longrightarrow> snd (JSONP_Render env j w v) = Return None"
  by (auto simp: JSONP_Render_def json_serialize_def Let_def split: prod.splits option.splits if_splits)

lemma JSONP_Render_ok_hdr:
  "snd (json_serialize env (JSONP.Indent j) v) = None
     \<Longrightarrow> hdr (fst (JSONP_Render env j w v)) =
          (if capable w then (hdr w)(ContentTypeKey \<mapsto> ContentType j) else hdr w)"
  by (auto simp: JSONP_Render_def json_serialize_def Let_def split: prod.splits option.splits if_splits)

lemma XML_Render_fail:
  "snd (xml_serialize env (XML.Indent x) v) = Some e
     \<Longrightarrow> XML_Render env x w v = (w, Return (Some e))"
  by (auto simp: XML_Render_def xml_serialize_def split: prod.splits option.splits if_splits)

lemma XML_Render_ok_trace:
  "xml_serialize env (XML.Indent x) v = (r, None)
     \<Longrightarrow> trace (fst (XML_Render env x w v)) =
          trace w @ header_events (capable w) (ContentType x) (Status x)
            @ prefix_events (XML.Prefix x)
            @ [BodyWrite (if XML.Indent x then r @ [newline] else r)]"
  by (auto simp: XML_Render_def xml_serialize_def Let_def header_events_def prefix_events_def
        split: prod.splits option.splits if_splits)

lemma XML_Render_ok_ret:
  "snd (xml_serialize env (XML.Indent x) v) = None
     \<Longrightarrow> snd (XML_Render env x w v) = Return None"
  by (auto simp: XML_Render_def xml_serialize_def Let_def split: prod.splits option.splits if_splits)

lemma XML_Render_ok_hdr:
  "snd (xml_serialize env (XML.Indent x) v) = None
     \<Longrightarrow> hdr (fst (XML_Render env x w v)) =
          (if capable w then (hdr w)(ContentTypeKey \<mapsto> ContentType x) else hdr w)"
  by (auto simp: XML_Render_def xml_serialize_def Let_def split: prod.splits option.splits if_splits)

lemma HTML_Render_fail:
  "snd (Templates h (Name h) v) = Some e
     \<Longrightarrow> snd (HTML_Render h p w v) = (w, Return (Some e))"
  by (auto simp: HTML_Render_def ExecuteTemplate_def bufPool_Get_def split: prod.splits option.splits)

lemma HTML_Render_ok_trace:
  "Templates h (Name h) v = (r, None)
     \<Longrightarrow> trace (fst (snd (HTML_Render h p w v))) =
          trace w @ header_events (capable w) (ContentType h) (Status h) @ prefix_events r"
  by (auto simp: HTML_Render_def ExecuteTemplate_def bufPool_Get_def Buffer_WriteTo_def Let_def
        header_events_def prefix_events_def split: prod.splits option.splits)

lemma HTML_Render_ok_ret:
  "snd (Templates h (Name h) v) = None
     \<Longrightarrow> snd (snd (HTML_Render h p w v)) = Return None"
  by (auto simp: HTML_Render_def ExecuteTemplate_def bufPool_Get_def Let_def split: prod.splits option.splits)

lemma HTML_Render_ok_hdr:
  "snd (Templates h (Name h) v) = None
     \<Longrightarrow> hdr (fst (snd (HTML_Render h p w v))) =
          (if capable w then (hdr w)(ContentTypeKey \<mapsto> ContentType h) else hdr w)"
  by (auto simp: HTML_Render_def ExecuteTemplate_def bufPool_Get_def Buffer_WriteTo_def Let_def
        split: prod.splits option.splits)

lemma Data_Render_hdr:
  "hdr (fst (Data_Render d w v)) =
     (if capable w then (hdr w)(ContentTypeKey \<mapsto> effective_type d w) else hdr w)"
  by (simp add: Data_Render_def Let_def effective_type_def split: iface.splits)

lemma Text_Render_hdr:
  "hdr (fst (Text_Render d w v)) =
     (if capable w then (hdr w)(ContentTypeKey \<mapsto> effective_type d w) else hdr w)"
  by (simp add: Text_Render_def Let_def effective_type_def split: iface.splits)

lemma header_then_body_events:
  "list_all is_body_write ws \<Longrightarrow> header_then_body c st (header_events True c st @ ws)"
  by (simp add: header_then_body_def header_events_def)

lemma body_only_prefix_events [simp]: "list_all is_body_write (prefix_events p)"
  by (simp add: prefix_events_def)

lemma header_events_False [simp]: "header_events False c st = []"
  by (simp add: header_events_def)

subsection \<open>The example inputs evaluated\<close>

lemma ex_serialize_Chan [simp]:
  "json_serialize ex_stdlib b (OtherVal Chan) = ([], Some (Error ''json: unsupported type''))"
  "xml_serialize ex_stdlib b (OtherVal Chan) = ([], Some (Error ''xml: unsupported type''))"
  by (simp_all add: json_serialize_def xml_serialize_def ex_stdlib_def ex_json_def ex_json_indent_def
        ex_xml_def ex_xml_indent_def)

lemma ex_template_Chan [simp]:
  "Templates ex_HTML (Name ex_HTML) (OtherVal Chan) =
     (''<p>'', Some (Error ''template: cannot evaluate field a''))"
  by (simp add: ex_HTML_def ex_templates_def)

lemma ex_not_streaming [simp]: "\<not> StreamingJSON ex_JSON"
  by (simp add: ex_JSON_def)

lemma ex_serialize_RecA1 [simp]:
  "json_serialize ex_stdlib False (OtherVal RecA1) = (''{\"a\":1}'', None)"
  "xml_serialize ex_stdlib False (OtherVal RecA1) = (''<R><a>1</a></R>'', None)"
  "json_Marshal ex_stdlib (OtherVal RecA1) = (''{\"a\":1}'', None)"
  "json_Marshal ex_stdlib (OtherVal Chan) = ([], Some (Error ''json: unsupported type''))"
  by (simp_all add: json_serialize_def xml_serialize_def ex_stdlib_def ex_json_def ex_xml_def)

lemma ex_template_RecA1 [simp]:
  "Templates ex_HTML (Name ex_HTML) (OtherVal RecA1) = (''<p>1</p>'', None)"
  by (simp add: ex_HTML_def ex_templates_def)

lemma ex_config [simp]:
  "JSON.Indent ex_JSON = False" "XML.Indent ex_XML = False" "JSONP.Indent ex_JSONP = False"
  "UnEscapeHTML ex_JSON = False" "JSON.Prefix ex_JSON = []" "XML.Prefix ex_XML = []"
  "Callback ex_JSONP = ''cb''"
  "ContentType ex_JSON = ''application/json''" "Status ex_JSON = 200"
  "ContentType ex_XML = ''text/xml''" "Status ex_XML = 200"
  "ContentType ex_JSONP = ''application/javascript''" "Status ex_JSONP = 200"
  "ContentType ex_HTML = ''text/html''" "Status ex_HTML = 200"
  "ContentType ex_head = ''application/octet-stream''" "Status ex_head = 200"
  by (simp_all add: ex_JSON_def ex_XML_def ex_JSONP_def ex_HTML_def ex_head_def)

lemma ex_sinks [simp]:
  "capable ex_response" "\<not> capable ex_buffer" "capable ex_broken"
  "wr_err ex_broken = Some (Error ''write: connection reset'')"
  "wr_err ex_response = None" "wr_err ex_buffer = None"
  "hdr ex_response ContentTypeKey = Some ''text/custom''"
  "Header_Get ex_response ContentTypeKey = ''text/custom''"
  "Header_Get ex_broken ContentTypeKey = []"
  "trace ex_response = []" "trace ex_buffer = []" "trace ex_broken = []"
  by (simp_all add: ex_response_def ex_buffer_def ex_broken_def Header_Get_def)

section \<open>The claims\<close>

subsection \<open>C1: the pooled buffer of the HTML renderer\<close>

text \<open>
  C1 says that every HTML render gives its buffer back to the pool, also when template
  execution fails. The source returns the error before it reaches \<^verbatim>\<open>bufPool.Put(out)\<close>.
  With one idle buffer in the pool and a binding on which the template fails half way,
  the call returns the error and leaves the pool without its buffer (none idle, one still
  lent), while the same call on a binding that renders leaves the pool as it was.
\<close>

theorem HTML_Render_failure_keeps_buffer:
  "fst (HTML_Render ex_HTML \<lparr>idle = 1, lent = 0\<rparr> ex_response (OtherVal Markup))
     = \<lparr>idle = 0, lent = 1\<rparr>
   \<and> snd (snd (HTML_Render ex_HTML \<lparr>idle = 1, lent = 0\<rparr> ex_response (OtherVal Markup)))
     = Return (Some (Error ''template: cannot evaluate field a''))
   \<and> fst (HTML_Render ex_HTML \<lparr>idle = 1, lent = 0\<rparr> ex_response (OtherVal RecA1))
     = \<lparr>idle = 1, lent = 0\<rparr>"
  by (simp add: HTML_Render_def bufPool_Get_def bufPool_Put_def ExecuteTemplate_def ex_HTML_def
      ex_templates_def Let_def)

subsection \<open>C3: input of the wrong kind\<close>

text \<open>
  C3 says that Data.Render on a value that is not a byte sequence, and Text.Render on a
  value that is not a string, return an error. They do not return: on a string, Data.Render
  panics in its type assertion, and so does Text.Render on a byte sequence.
\<close>

theorem wrong_kind_counterexample:
  "snd (Data_Render ex_head ex_response (StringVal ''hello'' :: ex_val iface))
     = Panic ''interface conversion: interface {} is not []uint8''
   \<and> snd (Text_Render ex_head ex_response (BytesVal ''hello'' :: ex_val iface))
     = Panic ''interface conversion: interface {} is not string''"
  by (simp add: Data_Render_def Text_Render_def Let_def)

text \<open>
  C3, amended: for every value that is not a byte sequence Data.Render panics, and for
  every value that is not a string Text.Render panics; neither returns an error result.
\<close>

theorem wrong_kind_panics:
  "(\<not> is_bytes v \<longrightarrow> is_panic (snd (Data_Render d w v)))
   \<and> (\<not> is_string v \<longrightarrow> is_panic (snd (Text_Render t w v)))"
  by (cases v) (simp_all add: Data_Render_def Text_Render_def Let_def)

text \<open>C3, the amended statement at a channel for Data and at a byte sequence for Text.\<close>

theorem wrong_kind_panics_witness:
  "\<not> is_bytes (OtherVal Chan) \<and> is_panic (snd (Data_Render ex_head ex_buffer (OtherVal Chan)))
   \<and> \<not> is_string (BytesVal ''x'' :: ex_val iface)
   \<and> is_panic (snd (Text_Render ex_head ex_buffer (BytesVal ''x'' :: ex_val iface)))"
  using wrong_kind_panics [where v = "OtherVal Chan" and d = ex_head and w = ex_buffer]
    wrong_kind_panics [where v = "BytesVal ''x'' :: ex_val iface" and t = ex_head and w = ex_buffer]
  by simp

subsection \<open>C4: a failed serialization or template execution leaves the sink alone\<close>

text \<open>
  C4: when serialization fails (JSON in buffered mode, XML, JSONP) or template execution
  fails (HTML), the render returns that error and the sink is exactly the sink before the
  call: no byte was written and no header was set.
\<close>

theorem failed_render_leaves_sink_untouched:
  "(\<not> StreamingJSON j \<and> snd (json_serialize env (JSON.Indent j) v) = Some e
      \<longrightarrow> JSON_Render env j w v = (w, Return (Some e)))
   \<and> (snd (xml_serialize env (XML.Indent x) v) = Some e
      \<longrightarrow> XML_Render env x w v = (w, Return (Some e)))
   \<and> (snd (json_serialize env (JSONP.Indent jp) v) = Some e
      \<longrightarrow> JSONP_Render env jp w v = (w, Return (Some e)))
   \<and> (snd (Templates h (Name h) v) = Some e
      \<longrightarrow> snd (HTML_Render h p w v) = (w, Return (Some e)))"
  by (simp add: JSON_Render_fail XML_Render_fail JSONP_Render_fail HTML_Render_fail)

text \<open>
  C4 at a channel, which no serializer and no template accepts, on a response writer.
\<close>

theorem failed_render_leaves_sink_untouched_witness:
  "JSON_Render ex_stdlib ex_JSON ex_response (OtherVal Chan)
     = (ex_response, Return (Some (Error ''json: unsupported type'')))
   \<and> XML_Render ex_stdlib ex_XML ex_response (OtherVal Chan)
     = (ex_response, Return (Some (Error ''xml: unsupported type'')))
   \<and> JSONP_Render ex_stdlib ex_JSONP ex_response (OtherVal Chan)
     = (ex_response, Return (Some (Error ''json: unsupported type'')))
   \<and> snd (HTML_Render ex_HTML \<lparr>idle = 0, lent = 0\<rparr> ex_response (OtherVal Chan))
     = (ex_response, Return (Some (Error ''template: cannot evaluate field a'')))"
  using failed_render_leaves_sink_untouched [where env = ex_stdlib and j = ex_JSON and x = ex_XML
      and jp = ex_JSONP and v = "OtherVal Chan" and w = ex_response
      and e = "Error ''json: unsupported type''"]
    failed_render_leaves_sink_untouched [where env = ex_stdlib and x = ex_XML
      and v = "OtherVal Chan" and w = ex_response and e = "Error ''xml: unsupported type''"]
    failed_render_leaves_sink_untouched [where h = ex_HTML and p = "\<lparr>idle = 0, lent = 0\<rparr>"
      and v = "OtherVal Chan" and w = ex_response
      and e = "Error ''template: cannot evaluate field a''"]
  by simp

subsection \<open>C2: what becomes of a rejected write\<close>

text \<open>
  C2 says that an error of the sink on a body write is returned by every renderer. The
  renderers other than streaming JSON discard the result of \<^verbatim>\<open>w.Write\<close> and end in
  \<^verbatim>\<open>return nil\<close>: on a response writer that rejects the write, Data.Render returns nil.
\<close>

theorem rejected_write_counterexample:
  "snd (Write ''abc'' ex_broken) = Some (Error ''write: connection reset'')
   \<and> snd (Data_Render ex_head ex_broken (BytesVal ''abc'' :: ex_val iface)) = Return None"
  by (simp add: Data_Render_def Let_def ex_broken_def)

lemma Data_Render_ret: "snd (Data_Render d w (BytesVal b)) = Return None"
  by (simp add: Data_Render_def Let_def)

lemma Text_Render_ret: "snd (Text_Render d w (StringVal b)) = Return None"
  by (simp add: Text_Render_def Let_def)

text \<open>
  C2, amended: an error of serialization or of template execution is returned to the caller
  of Render, and in streaming JSON mode so is the error of the encoder's write to the
  sink; the result of every other write is discarded, so that Data, Text, HTML, buffered
  JSON, JSONP and XML return nil whenever their input is accepted, whatever the sink
  answers to the writes.
\<close>

theorem render_error_results:
  "(\<not> StreamingJSON j \<and> snd (json_serialize env (JSON.Indent j) (v :: 'a iface)) = Some e
      \<longrightarrow> snd (JSON_Render env j w v) = Return (Some e))
   \<and> (snd (xml_serialize env (XML.Indent x) v) = Some e
      \<longrightarrow> snd (XML_Render env x w v) = Return (Some e))
   \<and> (snd (json_serialize env (JSONP.Indent jp) v) = Some e
      \<longrightarrow> snd (JSONP_Render env jp w v) = Return (Some e))
   \<and> (snd (Templates h (Name h) v) = Some e
      \<longrightarrow> snd (snd (HTML_Render h p w v)) = Return (Some e))
   \<and> (StreamingJSON j \<and> snd (json_Marshal env v) = Some e
      \<longrightarrow> snd (JSON_Render env j w v) = Return (Some e))
   \<and> (StreamingJSON j \<and> snd (json_Marshal env v) = None
      \<longrightarrow> snd (JSON_Render env j w v) = Return (wr_err w))
   \<and> snd (Data_Render d w (BytesVal b :: 'a iface)) = Return None
   \<and> snd (Text_Render t w (StringVal s :: 'a iface)) = Return None
   \<and> (\<not> StreamingJSON j \<and> snd (json_serialize env (JSON.Indent j) v) = None
      \<longrightarrow> snd (JSON_Render env j w v) = Return None)
   \<and> (snd (xml_serialize env (XML.Indent x) v) = None
      \<longrightarrow> snd (XML_Render env x w v) = Return None)
   \<and> (snd (json_serialize env (JSONP.Indent jp) v) = None
      \<longrightarrow> snd (JSONP_Render env jp w v) = Return None)
   \<and> (snd (Templates h (Name h) v) = None
      \<longrightarrow> snd (snd (HTML_Render h p w v)) = Return None)"
  by (simp add: JSON_Render_fail XML_Render_fail JSONP_Render_fail HTML_Render_fail
      streaming_ret Data_Render_ret Text_Render_ret JSON_Render_ok_ret XML_Render_ok_ret
      JSONP_Render_ok_ret HTML_Render_ok_ret)

text \<open>
  C2, the amended statement on a response writer that rejects every write: a channel gives
  the serialization error, the record gives nil in the buffered renderers and the write
  error in streaming mode.
\<close>

theorem render_error_results_witness:
  "snd (JSON_Render ex_stdlib ex_JSON ex_broken (OtherVal Chan))
     = Return (Some (Error ''json: unsupported type''))
   \<and> snd (XML_Render ex_stdlib ex_XML ex_broken (OtherVal Chan))
     = Return (Some (Error ''xml: unsupported type''))
   \<and> snd (JSONP_Render ex_stdlib ex_JSONP ex_broken (OtherVal Chan))
     = Return (Some (Error ''json: unsupported type''))
   \<and> snd (snd (HTML_Render ex_HTML \<lparr>idle = 0, lent = 0\<rparr> ex_broken (OtherVal Chan)))
     = Return (Some (Error ''template: cannot evaluate field a''))
   \<and> snd (JSON_Render ex_stdlib (ex_JSON\<lparr>StreamingJSON := True\<rparr>) ex_broken (OtherVal Chan))
     = Return (Some (Error ''json: unsupported type''))
   \<and> snd (JSON_Render ex_stdlib (ex_JSON\<lparr>StreamingJSON := True\<rparr>) ex_broken (OtherVal RecA1))
     = Return (Some (Error ''write: connection reset''))
   \<and> snd (JSON_Render ex_stdlib ex_JSON ex_broken (OtherVal RecA1)) = Return None
   \<and> snd (XML_Render ex_stdlib ex_XML ex_broken (OtherVal RecA1)) = Return None
   \<and> snd (JSONP_Render ex_stdlib ex_JSONP ex_broken (OtherVal RecA1)) = Return None
   \<and> snd (snd (HTML_Render ex_HTML \<lparr>idle = 0, lent = 0\<rparr> ex_broken (OtherVal RecA1)))
     = Return None"
proof -
  note a = render_error_results [where env = ex_stdlib and j = "ex_JSON" and x = ex_XML
      and jp = ex_JSONP and h = ex_HTML and p = "\<lparr>idle = 0, lent = 0\<rparr>" and d = ex_head
      and t = ex_head and b = "[]" and s = "[]" and v = "OtherVal Chan" and w = ex_broken
      and e = "Error ''json: unsupported type''"]
  note b = render_error_results [where env = ex_stdlib and j = "ex_JSON" and x = ex_XML
      and jp = ex_JSONP and h = ex_HTML and p = "\<lparr>idle = 0, lent = 0\<rparr>" and d = ex_head
      and t = ex_head and b = "[]" and s = "[]" and v = "OtherVal Chan" and w = ex_broken
      and e = "Error ''xml: unsupported type''"]
  note c = render_error_results [where env = ex_stdlib and j = "ex_JSON" and x = ex_XML
      and jp = ex_JSONP and h = ex_HTML and p = "\<lparr>idle = 0, lent = 0\<rparr>" and d = ex_head
      and t = ex_head and b = "[]" and s = "[]" and v = "OtherVal Chan" and w = ex_broken
      and e = "Error ''template: cannot evaluate field a''"]
  note d = render_error_results [where env = ex_stdlib and j = "ex_JSON\<lparr>StreamingJSON := True\<rparr>" and x = ex_XML
      and jp = ex_JSONP and h = ex_HTML and p = "\<lparr>idle = 0, lent = 0\<rparr>" and d = ex_head
      and t = ex_head and b = "[]" and s = "[]" and v = "OtherVal Chan" and w = ex_broken
      and e = "Error ''json: unsupported type''"]
  note e = render_error_results [where env = ex_stdlib and j = "ex_JSON\<lparr>StreamingJSON := True\<rparr>" and x = ex_XML
      and jp = ex_JSONP and h = ex_HTML and p = "\<lparr>idle = 0, lent = 0\<rparr>" and d = ex_head
      and t = ex_head and b = "[]" and s = "[]" and v = "OtherVal RecA1" and w = ex_broken
      and e = "Error ''json: unsupported type''"]
  note f = render_error_results [where env = ex_stdlib and j = "ex_JSON" and x = ex_XML
      and jp = ex_JSONP and h = ex_HTML and p = "\<lparr>idle = 0, lent = 0\<rparr>" and d = ex_head
      and t = ex_head and b = "[]" and s = "[]" and v = "OtherVal RecA1" and w = ex_broken
      and e = "Error ''json: unsupported type''"]
  have 1: "snd (JSON_Render ex_stdlib ex_JSON ex_broken (OtherVal Chan))
     = Return (Some (Error ''json: unsupported type''))"
    using a by simp
  have 2: "snd (XML_Render ex_stdlib ex_XML ex_broken (OtherVal Chan))
     = Return (Some (Error ''xml: unsupported type''))"
    using b by simp
  have 3: "snd (JSONP_Render ex_stdlib ex_JSONP ex_broken (OtherVal Chan))
     = Return (Some (Error ''json: unsupported type''))"
    using a by simp
  have 4: "snd (snd (HTML_Render ex_HTML \<lparr>idle = 0, lent = 0\<rparr> ex_broken (OtherVal Chan)))
     = Return (Some (Error ''template: cannot evaluate field a''))"
    using c by simp
  have 5: "snd (JSON_Render ex_stdlib (ex_JSON\<lparr>StreamingJSON := True\<rparr>) ex_broken (OtherVal Chan))
     = Return (Some (Error ''json: unsupported type''))"
    using d by simp
  have 6: "snd (JSON_Render ex_stdlib (ex_JSON\<lparr>StreamingJSON := True\<rparr>) ex_broken (OtherVal RecA1))
     = Return (Some (Error ''write: connection reset''))"
    using e by simp
  have 7: "snd (JSON_Render ex_stdlib ex_JSON ex_broken (OtherVal RecA1)) = Return None"
    using f by simp
  have 8: "snd (XML_Render ex_stdlib ex_XML ex_broken (OtherVal RecA1)) = Return None"
    using f by simp
  have 9: "snd (JSONP_Render ex_stdlib ex_JSONP ex_broken (OtherVal RecA1)) = Return None"
    using f by simp
  have 10: "snd (snd (HTML_Render ex_HTML \<lparr>idle = 0, lent = 0\<rparr> ex_broken (OtherVal RecA1)))
     = Return None"
    using f by simp
  show ?thesis using 1 2 3 4 5 6 7 8 9 10 by simp
qed

subsection \<open>C5: the header write and the body writes\<close>

text \<open>
  C5 says that on a header-capable sink every render call writes the header exactly once.
  A buffered JSON render of a value that cannot be serialized makes no call on the sink
  at all: the header is written zero times.
\<close>

theorem header_write_counterexample:
  "capable ex_response
   \<and> new_events ex_response (fst (JSON_Render ex_stdlib ex_JSON ex_response (OtherVal Chan))) = []
   \<and> \<not> header_then_body (ContentType ex_JSON) (Status ex_JSON)
         (new_events ex_response (fst (JSON_Render ex_stdlib ex_JSON ex_response (OtherVal Chan))))"
  by (simp add: JSON_Render_fail header_then_body_def)

lemma body_only_case_bytes [simp]:
  "list_all is_body_write (case v of BytesVal b \<Rightarrow> [BodyWrite b] | _ \<Rightarrow> [])"
  by (cases v) simp_all

lemma body_only_case_string [simp]:
  "list_all is_body_write (case v of StringVal b \<Rightarrow> [BodyWrite b] | _ \<Rightarrow> [])"
  by (cases v) simp_all

lemma Data_events:
  "new_events w (fst (Data_Render d w v)) =
     header_events (capable w) (effective_type d w) (Status d)
       @ (case v of BytesVal b \<Rightarrow> [BodyWrite b] | _ \<Rightarrow> [])"
  by (rule new_events_app) (simp add: Data_Render_trace)

lemma Text_events:
  "new_events w (fst (Text_Render d w v)) =
     header_events (capable w) (effective_type d w) (Status d)
       @ (case v of StringVal b \<Rightarrow> [BodyWrite b] | _ \<Rightarrow> [])"
  by (rule new_events_app) (simp add: Text_Render_trace)

lemma streaming_events:
  "StreamingJSON j \<Longrightarrow>
     new_events w (fst (JSON_Render env j w v)) =
       header_events (capable w) (ContentType j) (Status j)
         @ prefix_events (JSON.Prefix j)
         @ (case json_Marshal env v of (b, None) \<Rightarrow> [BodyWrite (b @ [newline])] | (b, Some e) \<Rightarrow> [])"
  by (rule new_events_app) (simp add: streaming_trace)

lemma JSON_events:
  "\<not> StreamingJSON j \<Longrightarrow> json_serialize env (JSON.Indent j) v = (r, None)
     \<Longrightarrow> new_events w (fst (JSON_Render env j w v)) =
          header_events (capable w) (ContentType j) (Status j)
            @ prefix_events (JSON.Prefix j) @ [BodyWrite (JSON_payload j r)]"
  by (rule new_events_app) (simp add: JSON_Render_ok_trace)

lemma JSONP_events:
  "json_serialize env (JSONP.Indent j) v = (r, None)
     \<Longrightarrow> new_events w (fst (JSONP_Render env j w v)) =
          header_events (capable w) (ContentType j) (Status j)
            @ [BodyWrite (Callback j @ ''(''), BodyWrite r, BodyWrite '');'']
            @ (if JSONP.Indent j then [BodyWrite [newline]] else [])"
  by (rule new_events_app) (simp add: JSONP_Render_ok_trace)

lemma XML_events:
  "xml_serialize env (XML.Indent x) v = (r, None)
     \<Longrightarrow> new_events w (fst (XML_Render env x w v)) =
          header_events (capable w) (ContentType x) (Status x)
            @ prefix_events (XML.Prefix x)
            @ [BodyWrite (if XML.Indent x then r @ [newline] else r)]"
  by (rule new_events_app) (simp add: XML_Render_ok_trace)

lemma HTML_events:
  "Templates h (Name h) v = (r, None)
     \<Longrightarrow> new_events w (fst (snd (HTML_Render h p w v))) =
          header_events (capable w) (ContentType h) (Status h) @ prefix_events r"
  by (rule new_events_app) (simp add: HTML_Render_ok_trace)

lemma body_only_marshal [simp]:
  "list_all is_body_write
     (case m of (b, None) \<Rightarrow> [BodyWrite (b @ [newline])] | (b, Some e) \<Rightarrow> [])"
  by (cases m) (simp split: option.splits)

lemma capable_header_first:
  assumes "capable w"
  shows "header_then_body (effective_type d w) (Status d) (new_events w (fst (Data_Render d w v)))"
    and "header_then_body (effective_type t w) (Status t) (new_events w (fst (Text_Render t w v)))"
    and "StreamingJSON j \<Longrightarrow>
           header_then_body (ContentType j) (Status j) (new_events w (fst (JSON_Render env j w u)))"
    and "\<not> StreamingJSON j \<Longrightarrow> snd (json_serialize env (JSON.Indent j) u) = None \<Longrightarrow>
           header_then_body (ContentType j) (Status j) (new_events w (fst (JSON_Render env j w u)))"
    and "snd (json_serialize env (JSONP.Indent jp) u) = None \<Longrightarrow>
           header_then_body (ContentType jp) (Status jp) (new_events w (fst (JSONP_Render env jp w u)))"
    and "snd (xml_serialize env (XML.Indent x) u) = None \<Longrightarrow>
           header_then_body (ContentType x) (Status x) (new_events w (fst (XML_Render env x w u)))"
    and "snd (Templates h (Name h) u) = None \<Longrightarrow>
           header_then_body (ContentType h) (Status h) (new_events w (fst (snd (HTML_Render h p w u))))"
proof -
  show "header_then_body (effective_type d w) (Status d) (new_events w (fst (Data_Render d w v)))"
    using assms by (simp add: Data_events header_then_body_events)
  show "header_then_body (effective_type t w) (Status t) (new_events w (fst (Text_Render t w v)))"
    using assms by (simp add: Text_events header_then_body_events)
  show "StreamingJSON j \<Longrightarrow>
           header_then_body (ContentType j) (Status j) (new_events w (fst (JSON_Render env j w u)))"
    using assms by (simp add: streaming_events header_then_body_events)
  show "\<not> StreamingJSON j \<Longrightarrow> snd (json_serialize env (JSON.Indent j) u) = None \<Longrightarrow>
           header_then_body (ContentType j) (Status j) (new_events w (fst (JSON_Render env j w u)))"
    using assms by (cases "json_serialize env (JSON.Indent j) u")
      (simp add: JSON_events header_then_body_events)
  show "snd (json_serialize env (JSONP.Indent jp) u) = None \<Longrightarrow>
           header_then_body (ContentType jp) (Status jp) (new_events w (fst (JSONP_Render env jp w u)))"
    using assms by (cases "json_serialize env (JSONP.Indent jp) u")
      (simp add: JSONP_events header_then_body_events)
  show "snd (xml_serialize env (XML.Indent x) u) = None \<Longrightarrow>
           header_then_body (ContentType x) (Status x) (new_events w (fst (XML_Render env x w u)))"
    using assms by (cases "xml_serialize env (XML.Indent x) u")
      (simp add: XML_events header_then_body_events)
  show "snd (Templates h (Name h) u) = None \<Longrightarrow>
           header_then_body (ContentType h) (Status h) (new_events w (fst (snd (HTML_Render h p w u))))"
    using assms by (cases "Templates h (Name h) u")
      (simp add: HTML_events header_then_body_events)
qed

lemma plain_body_only:
  assumes "\<not> capable w"
  shows "list_all is_body_write (new_events w (fst (Data_Render d w v)))"
    and "list_all is_body_write (new_events w (fst (Text_Render t w v)))"
    and "list_all is_body_write (new_events w (fst (JSON_Render env j w u)))"
    and "list_all is_body_write (new_events w (fst (JSONP_Render env jp w u)))"
    and "list_all is_body_write (new_events w (fst (XML_Render env x w u)))"
    and "list_all is_body_write (new_events w (fst (snd (HTML_Render h p w u))))"
proof -
  show "list_all is_body_write (new_events w (fst (Data_Render d w v)))"
    using assms by (simp add: Data_events)
  show "list_all is_body_write (new_events w (fst (Text_Render t w v)))"
    using assms by (simp add: Text_events)
  show "list_all is_body_write (new_events w (fst (JSON_Render env j w u)))"
  proof (cases "StreamingJSON j")
    case True
    then show ?thesis using assms by (simp add: streaming_events)
  next
    case False
    then show ?thesis using assms
      by (cases "json_serialize env (JSON.Indent j) u"; cases "snd (json_serialize env (JSON.Indent j) u)")
        (simp_all add: JSON_events JSON_Render_fail)
  qed
  show "list_all is_body_write (new_events w (fst (JSONP_Render env jp w u)))"
    using assms
    by (cases "json_serialize env (JSONP.Indent jp) u"; cases "snd (json_serialize env (JSONP.Indent jp) u)")
      (simp_all add: JSONP_events JSONP_Render_fail)
  show "list_all is_body_write (new_events w (fst (XML_Render env x w u)))"
    using assms
    by (cases "xml_serialize env (XML.Indent x) u"; cases "snd (xml_serialize env (XML.Indent x) u)")
      (simp_all add: XML_events XML_Render_fail)
  show "list_all is_body_write (new_events w (fst (snd (HTML_Render h p w u))))"
    using assms
    by (cases "Templates h (Name h) u"; cases "snd (Templates h (Name h) u)")
      (simp_all add: HTML_events HTML_Render_fail)
qed

text \<open>
  C5, amended: on a header-capable sink, every render call that gets as far as writing
  (every Data, Text and streaming JSON call; a buffered JSON, JSONP, XML or HTML call whose
  serialization or template execution succeeds) writes the header exactly once, content
  type first and status second, before any body write, and makes only body writes after
  it; a call whose serialization or template execution fails makes no call on the sink.
  On a sink without header capability every call makes body writes only.
\<close>

theorem header_write_once_before_body:
  "(capable w \<longrightarrow>
      header_then_body (effective_type d w) (Status d)
        (new_events w (fst (Data_Render d w (v :: 'a iface))))
    \<and> header_then_body (effective_type t w) (Status t)
        (new_events w (fst (Text_Render t w v)))
    \<and> (StreamingJSON j \<longrightarrow>
          header_then_body (ContentType j) (Status j) (new_events w (fst (JSON_Render env j w v))))
    \<and> (\<not> StreamingJSON j \<and> snd (json_serialize env (JSON.Indent j) v) = None \<longrightarrow>
          header_then_body (ContentType j) (Status j) (new_events w (fst (JSON_Render env j w v))))
    \<and> (snd (json_serialize env (JSONP.Indent jp) v) = None \<longrightarrow>
          header_then_body (ContentType jp) (Status jp)
            (new_events w (fst (JSONP_Render env jp w v))))
    \<and> (snd (xml_serialize env (XML.Indent x) v) = None \<longrightarrow>
          header_then_body (ContentType x) (Status x) (new_events w (fst (XML_Render env x w v))))
    \<and> (snd (Templates h (Name h) v) = None \<longrightarrow>
          header_then_body (ContentType h) (Status h)
            (new_events w (fst (snd (HTML_Render h p w v))))))
   \<and> (\<not> StreamingJSON j \<and> snd (json_serialize env (JSON.Indent j) v) \<noteq> None \<longrightarrow>
        new_events w (fst (JSON_Render env j w v)) = [])
   \<and> (snd (json_serialize env (JSONP.Indent jp) v) \<noteq> None \<longrightarrow>
        new_events w (fst (JSONP_Render env jp w v)) = [])
   \<and> (snd (xml_serialize env (XML.Indent x) v) \<noteq> None \<longrightarrow>
        new_events w (fst (XML_Render env x w v)) = [])
   \<and> (snd (Templates h (Name h) v) \<noteq> None \<longrightarrow>
        new_events w (fst (snd (HTML_Render h p w v))) = [])
   \<and> (\<not> capable w \<longrightarrow>
        list_all is_body_write (new_events w (fst (Data_Render d w v)))
      \<and> list_all is_body_write (new_events w (fst (Text_Render t w v)))
      \<and> list_all is_body_write (new_events w (fst (JSON_Render env j w v)))
      \<and> list_all is_body_write (new_events w (fst (JSONP_Render env jp w v)))
      \<and> list_all is_body_write (new_events w (fst (XML_Render env x w v)))
      \<and> list_all is_body_write (new_events w (fst (snd (HTML_Render h p w v)))))"
  by (auto simp: capable_header_first plain_body_only JSON_Render_fail JSONP_Render_fail
      XML_Render_fail HTML_Render_fail)

text \<open>
  C5, the amended statement on a response writer for the record and for the channel, and on
  a plain writer.
\<close>

theorem header_write_once_before_body_witness:
  "header_then_body ''text/custom'' 200
     (new_events ex_response (fst (Data_Render ex_head ex_response (OtherVal RecA1))))
   \<and> header_then_body ''application/json'' 200
     (new_events ex_response
        (fst (JSON_Render ex_stdlib (ex_JSON\<lparr>StreamingJSON := True\<rparr>) ex_response (OtherVal RecA1))))
   \<and> header_then_body ''application/json'' 200
     (new_events ex_response (fst (JSON_Render ex_stdlib ex_JSON ex_response (OtherVal RecA1))))
   \<and> header_then_body ''application/javascript'' 200
     (new_events ex_response (fst (JSONP_Render ex_stdlib ex_JSONP ex_response (OtherVal RecA1))))
   \<and> header_then_body ''text/xml'' 200
     (new_events ex_response (fst (XML_Render ex_stdlib ex_XML ex_response (OtherVal RecA1))))
   \<and> header_then_body ''text/html'' 200
     (new_events ex_response
        (fst (snd (HTML_Render ex_HTML \<lparr>idle = 0, lent = 0\<rparr> ex_response (OtherVal RecA1)))))
   \<and> new_events ex_response (fst (JSON_Render ex_stdlib ex_JSON ex_response (OtherVal Chan))) = []
   \<and> new_events ex_response (fst (JSONP_Render ex_stdlib ex_JSONP ex_response (OtherVal Chan))) = []
   \<and> new_events ex_response (fst (XML_Render ex_stdlib ex_XML ex_response (OtherVal Chan))) = []
   \<and> new_events ex_response
        (fst (snd (HTML_Render ex_HTML \<lparr>idle = 0, lent = 0\<rparr> ex_response (OtherVal Chan)))) = []
   \<and> list_all is_body_write
        (new_events ex_buffer (fst (JSON_Render ex_stdlib ex_JSON ex_buffer (OtherVal RecA1))))"
proof -
  note a = header_write_once_before_body [where env = ex_stdlib and j = ex_JSON and x = ex_XML
      and jp = ex_JSONP and h = ex_HTML and p = "\<lparr>idle = 0, lent = 0\<rparr>" and d = ex_head
      and t = ex_head and v = "OtherVal RecA1" and w = ex_response]
  note b = header_write_once_before_body [where env = ex_stdlib
      and j = "ex_JSON\<lparr>StreamingJSON := True\<rparr>" and x = ex_XML
      and jp = ex_JSONP and h = ex_HTML and p = "\<lparr>idle = 0, lent = 0\<rparr>" and d = ex_head
      and t = ex_head and v = "OtherVal RecA1" and w = ex_response]
  note c = header_write_once_before_body [where env = ex_stdlib and j = ex_JSON and x = ex_XML
      and jp = ex_JSONP and h = ex_HTML and p = "\<lparr>idle = 0, lent = 0\<rparr>" and d = ex_head
      and t = ex_head and v = "OtherVal Chan" and w = ex_response]
  note d = header_write_once_before_body [where env = ex_stdlib and j = ex_JSON and x = ex_XML
      and jp = ex_JSONP and h = ex_HTML and p = "\<lparr>idle = 0, lent = 0\<rparr>" and d = ex_head
      and t = ex_head and v = "OtherVal RecA1" and w = ex_buffer]
  have et: "effective_type ex_head ex_response = ''text/custom''"
    by (simp add: effective_type_def)
  show ?thesis using a b c d et by simp
qed

subsection \<open>C8: the body of a JSONP response\<close>

lemma JSONP_Render_written:
  "json_serialize env (JSONP.Indent j) v = (r, None) \<Longrightarrow> wr_err w = None
     \<Longrightarrow> written (fst (JSONP_Render env j w v)) =
          written w @ Callback j @ ''('' @ r @ '');'' @ (if JSONP.Indent j then [newline] else [])"
  by (auto simp: JSONP_Render_def json_serialize_def Let_def split: prod.splits option.splits if_splits)

text \<open>
  C8: for a value the serializer accepts, with result \<open>r\<close> (indented when the indent
  option is set), the body the JSONP renderer sends is the callback name, an opening
  parenthesis, \<open>r\<close>, a closing parenthesis, a semicolon and, only when the indent option
  is set, one newline; a sink that accepts its writes holds exactly these bytes after what
  it held before.
\<close>

theorem JSONP_body:
  "json_serialize env (JSONP.Indent j) v = (r, None) \<longrightarrow>
     body_sent w (fst (JSONP_Render env j w v))
       = Callback j @ ''('' @ r @ '');'' @ (if JSONP.Indent j then [newline] else [])
     \<and> (wr_err w = None \<longrightarrow>
          written (fst (JSONP_Render env j w v))
            = written w @ Callback j @ ''('' @ r @ '');'' @ (if JSONP.Indent j then [newline] else []))"
  by (simp add: body_sent_def JSONP_events JSONP_Render_written header_events_def)

text \<open>C8 for the callback \<open>cb\<close> and the record that serializes to \<open>{"a":1}\<close>.\<close>

theorem JSONP_body_witness:
  "body_sent ex_buffer (fst (JSONP_Render ex_stdlib ex_JSONP ex_buffer (OtherVal RecA1)))
     = ''cb({\"a\":1});''
   \<and> written (fst (JSONP_Render ex_stdlib ex_JSONP ex_buffer (OtherVal RecA1)))
     = ''cb({\"a\":1});''"
  using JSONP_body [where env = ex_stdlib and j = ex_JSONP and v = "OtherVal RecA1"
      and r = "''{\"a\":1}''" and w = ex_buffer]
  by (simp add: ex_buffer_def)

subsection \<open>C9: Data and Text keep a content type that is already set\<close>

text \<open>
  C9: when the header-capable sink carries a non-empty content type before the call, Data
  and Text leave it, and the whole header map, as it was; the configured content type is
  set only when the sink has no content type (or an empty one).
\<close>

theorem preexisting_content_type_kept:
  "(capable w \<and> hdr w ContentTypeKey = Some c \<and> c \<noteq> [] \<longrightarrow>
      hdr (fst (Data_Render d w (v :: 'a iface))) ContentTypeKey = Some c
    \<and> hdr (fst (Text_Render t w v)) ContentTypeKey = Some c
    \<and> hdr (fst (Data_Render d w v)) = hdr w
    \<and> hdr (fst (Text_Render t w v)) = hdr w)
   \<and> (capable w \<and> Header_Get w ContentTypeKey = [] \<longrightarrow>
      hdr (fst (Data_Render d w v)) ContentTypeKey = Some (ContentType d)
    \<and> hdr (fst (Text_Render t w v)) ContentTypeKey = Some (ContentType t))"
  by (auto simp: Data_Render_hdr Text_Render_hdr effective_type_def Header_Get_def)

text \<open>
  C9 on a response writer that carries \<open>text/custom\<close>, and on one that carries no
  content type.
\<close>

theorem preexisting_content_type_kept_witness:
  "hdr (fst (Data_Render ex_head ex_response (BytesVal ''abc'' :: ex_val iface))) ContentTypeKey
     = Some ''text/custom''
   \<and> hdr (fst (Text_Render ex_head ex_response (StringVal ''abc'' :: ex_val iface))) ContentTypeKey
     = Some ''text/custom''
   \<and> hdr (fst (Data_Render ex_head ex_broken (BytesVal ''abc'' :: ex_val iface))) ContentTypeKey
     = Some ''application/octet-stream''
   \<and> hdr (fst (Text_Render ex_head ex_broken (StringVal ''abc'' :: ex_val iface))) ContentTypeKey
     = Some ''application/octet-stream''"
proof -
  note a = preexisting_content_type_kept [where w = ex_response and c = "''text/custom''"
      and d = ex_head and t = ex_head and v = "BytesVal ''abc'' :: ex_val iface"]
  note b = preexisting_content_type_kept [where w = ex_response and c = "''text/custom''"
      and d = ex_head and t = ex_head and v = "StringVal ''abc'' :: ex_val iface"]
  note c = preexisting_content_type_kept [where w = ex_broken and c = "''text/custom''"
      and d = ex_head and t = ex_head and v = "BytesVal ''abc'' :: ex_val iface"]
  note d = preexisting_content_type_kept [where w = ex_broken and c = "''text/custom''"
      and d = ex_head and t = ex_head and v = "StringVal ''abc'' :: ex_val iface"]
  show ?thesis using a b c d by simp
qed

subsection \<open>C10: the other renderers overwrite the content type\<close>

text \<open>
  C10 says that JSON, JSONP, XML and HTML overwrite a content type that is already set,
  unconditionally. A buffered JSON render of a value that cannot be serialized returns
  before the header write and leaves \<open>text/custom\<close> on the sink.
\<close>

theorem content_type_overwrite_counterexample:
  "capable ex_response
   \<and> hdr ex_response ContentTypeKey = Some ''text/custom''
   \<and> ContentType ex_JSON = ''application/json''
   \<and> hdr (fst (JSON_Render ex_stdlib ex_JSON ex_response (OtherVal Chan))) ContentTypeKey
       = Some ''text/custom''"
  by (simp add: JSON_Render_fail)

text \<open>
  C10, amended: whenever the JSON, JSONP, XML or HTML renderer reaches its header write
  (streaming JSON always; the buffered renderers when serialization or template execution
  succeeds), the content type on a header-capable sink becomes the configured one,
  whatever it was before; only Data and Text keep a non-empty content type that was
  already set.
\<close>

theorem content_type_overwritten:
  "capable w \<longrightarrow>
     (StreamingJSON j \<longrightarrow>
        hdr (fst (JSON_Render env j w (v :: 'a iface))) ContentTypeKey = Some (ContentType j))
   \<and> (\<not> StreamingJSON j \<and> snd (json_serialize env (JSON.Indent j) v) = None \<longrightarrow>
        hdr (fst (JSON_Render env j w v)) ContentTypeKey = Some (ContentType j))
   \<and> (snd (json_serialize env (JSONP.Indent jp) v) = None \<longrightarrow>
        hdr (fst (JSONP_Render env jp w v)) ContentTypeKey = Some (ContentType jp))
   \<and> (snd (xml_serialize env (XML.Indent x) v) = None \<longrightarrow>
        hdr (fst (XML_Render env x w v)) ContentTypeKey = Some (ContentType x))
   \<and> (snd (Templates h (Name h) v) = None \<longrightarrow>
        hdr (fst (snd (HTML_Render h p w v))) ContentTypeKey = Some (ContentType h))
   \<and> (Header_Get w ContentTypeKey \<noteq> [] \<longrightarrow>
        hdr (fst (Data_Render d w v)) ContentTypeKey = Some (Header_Get w ContentTypeKey)
      \<and> hdr (fst (Text_Render t w v)) ContentTypeKey = Some (Header_Get w ContentTypeKey))"
  by (simp add: streaming_hdr JSON_Render_ok_hdr JSONP_Render_ok_hdr XML_Render_ok_hdr
      HTML_Render_ok_hdr Data_Render_hdr Text_Render_hdr effective_type_def)

text \<open>C10, the amended statement on a response writer that carries \<open>text/custom\<close>.\<close>

theorem content_type_overwritten_witness:
  "hdr ex_response ContentTypeKey = Some ''text/custom''
   \<and> hdr (fst (JSON_Render ex_stdlib (ex_JSON\<lparr>StreamingJSON := True\<rparr>) ex_response
          (OtherVal RecA1))) ContentTypeKey = Some ''application/json''
   \<and> hdr (fst (JSON_Render ex_stdlib ex_JSON ex_response (OtherVal RecA1))) ContentTypeKey
       = Some ''application/json''
   \<and> hdr (fst (JSONP_Render ex_stdlib ex_JSONP ex_response (OtherVal RecA1))) ContentTypeKey
       = Some ''application/javascript''
   \<and> hdr (fst (XML_Render ex_stdlib ex_XML ex_response (OtherVal RecA1))) ContentTypeKey
       = Some ''text/xml''
   \<and> hdr (fst (snd (HTML_Render ex_HTML \<lparr>idle = 0, lent = 0\<rparr> ex_response (OtherVal RecA1))))
        ContentTypeKey = Some ''text/html''
   \<and> hdr (fst (Data_Render ex_head ex_response (OtherVal RecA1))) ContentTypeKey
       = Some ''text/custom''
   \<and> hdr (fst (Text_Render ex_head ex_response (OtherVal RecA1))) ContentTypeKey
       = Some ''text/custom''"
proof -
  note a = content_type_overwritten [where env = ex_stdlib and j = ex_JSON and x = ex_XML
      and jp = ex_JSONP and h = ex_HTML and p = "\<lparr>idle = 0, lent = 0\<rparr>" and d = ex_head
      and t = ex_head and v = "OtherVal RecA1" and w = ex_response]
  note b = content_type_overwritten [where env = ex_stdlib
      and j = "ex_JSON\<lparr>StreamingJSON := True\<rparr>" and x = ex_XML
      and jp = ex_JSONP and h = ex_HTML and p = "\<lparr>idle = 0, lent = 0\<rparr>" and d = ex_head
      and t = ex_head and v = "OtherVal RecA1" and w = ex_response]
  show ?thesis using a b by simp
qed

section \<open>The replacement of escape sequences\<close>

subsection \<open>Facts about \<^verbatim>\<open>bytes.Replace\<close>\<close>

lemma esc_simps:
  "esc_lt = [CHR 0x5C, CHR ''u'', CHR ''0'', CHR ''0'', CHR ''3'', CHR ''c'']"
  "esc_gt = [CHR 0x5C, CHR ''u'', CHR ''0'', CHR ''0'', CHR ''3'', CHR ''e'']"
  "esc_amp = [CHR 0x5C, CHR ''u'', CHR ''0'', CHR ''0'', CHR ''2'', CHR ''6'']"
  by (simp_all add: esc_lt_def esc_gt_def esc_amp_def backslash_def)

lemma Replace_snoc:
  "c \<notin> set old \<Longrightarrow> bytes_Replace (s @ [c]) old new = bytes_Replace s old new @ [c]"
proof (induction s old new rule: bytes_Replace.induct)
  case (1 old new)
  then show ?case by (cases old) auto
next
  case (2 x xs old new)
  show ?case
  proof (cases "old \<noteq> [] \<and> prefix old (x # xs)")
    case True
    then have "length old \<le> length (x # xs)"
      using prefix_length_le by blast
    then have len: "length old - 1 \<le> length xs"
      by simp
    from True have p: "prefix old (x # xs @ [c])"
      using prefix_prefix [of old "x # xs" "[c]"] by simp
    from True have eq1: "bytes_Replace (x # xs) old new
        = new @ bytes_Replace (drop (length old - 1) xs) old new"
      by simp
    from True p have eq2: "bytes_Replace (x # xs @ [c]) old new
        = new @ bytes_Replace (drop (length old - 1) (xs @ [c])) old new"
      by simp
    from len have "drop (length old - 1) (xs @ [c]) = drop (length old - 1) xs @ [c]"
      by simp
    with eq1 eq2 2(1) [OF True 2(3)] show ?thesis by simp
  next
    case False
    have n: "\<not> (old \<noteq> [] \<and> prefix old (x # xs @ [c]))"
    proof
      assume a: "old \<noteq> [] \<and> prefix old (x # xs @ [c])"
      then have "prefix old ((x # xs) @ [c])" by simp
      then have "old = (x # xs) @ [c] \<or> prefix old (x # xs)"
        by (simp only: prefix_snoc)
      with False a 2(3) show False by auto
    qed
    from False have eq1: "bytes_Replace (x # xs) old new = x # bytes_Replace xs old new"
      by auto
    from n have eq2: "bytes_Replace (x # xs @ [c]) old new = x # bytes_Replace (xs @ [c]) old new"
      by auto
    from eq1 eq2 2(2) [OF False 2(3)] show ?thesis by simp
  qed
qed

lemma Replace_last:
  "new \<noteq> [] \<Longrightarrow> last new \<noteq> c \<Longrightarrow> s \<noteq> [] \<Longrightarrow> last s \<noteq> c
     \<Longrightarrow> bytes_Replace s old new \<noteq> [] \<and> last (bytes_Replace s old new) \<noteq> c"
proof (induction s old new rule: bytes_Replace.induct)
  case (1 old new)
  then show ?case by simp
next
  case (2 x xs old new)
  show ?case
  proof (cases "old \<noteq> [] \<and> prefix old (x # xs)")
    case True
    then have eq: "bytes_Replace (x # xs) old new
        = new @ bytes_Replace (drop (length old - 1) xs) old new"
      by simp
    show ?thesis
    proof (cases "drop (length old - 1) xs = []")
      case e: True
      with eq 2(3,4) show ?thesis by simp
    next
      case ne: False
      then have "xs \<noteq> []" by auto
      with ne 2(6) have "last (drop (length old - 1) xs) \<noteq> c"
        by simp
      with 2(1) [OF True 2(3,4) ne] have
        "bytes_Replace (drop (length old - 1) xs) old new \<noteq> []
         \<and> last (bytes_Replace (drop (length old - 1) xs) old new) \<noteq> c"
        by simp
      with eq show ?thesis by simp
    qed
  next
    case False
    then have eq: "bytes_Replace (x # xs) old new = x # bytes_Replace xs old new"
      by auto
    show ?thesis
    proof (cases "xs = []")
      case True
      with eq 2(6) show ?thesis by simp
    next
      case ne: False
      with 2(6) have "last xs \<noteq> c" by simp
      with 2(2) [OF False 2(3,4) ne] have
        "bytes_Replace xs old new \<noteq> [] \<and> last (bytes_Replace xs old new) \<noteq> c"
        by simp
      with eq show ?thesis by simp
    qed
  qed
qed

lemma prefix_Replace_iff:
  "old \<noteq> [] \<Longrightarrow> hd old \<notin> set p \<Longrightarrow> new \<noteq> [] \<Longrightarrow> hd new \<notin> set p
     \<Longrightarrow> prefix p (bytes_Replace s old new) \<longleftrightarrow> prefix p s"
proof (induction p arbitrary: s)
  case Nil
  then show ?case by simp
next
  case (Cons y p)
  show ?case
  proof (cases s)
    case Nil
    then show ?thesis by simp
  next
    case (Cons x xs)
    show ?thesis
    proof (cases "prefix old (x # xs)")
      case True
      with Cons.prems have "x = hd old" by (cases old) auto
      with Cons.prems have xy: "x \<noteq> y" by auto
      from Cons.prems have "hd new \<noteq> y" by auto
      with Cons.prems have "\<not> prefix (y # p) (new @ bytes_Replace (drop (length old - 1) xs) old new)"
        by (cases new) auto
      with True xy Cons.prems(1) show ?thesis unfolding Cons by simp
    next
      case False
      with Cons.IH [of xs] Cons.prems show ?thesis unfolding Cons by simp
    qed
  qed
qed

subsection \<open>The three replacements are one pass from left to right\<close>

lemma unescape_lt: "unescape (esc_lt @ t) = CHR ''<'' # unescape t"
  by (simp add: unescape_def esc_simps)

lemma unescape_gt: "unescape (esc_gt @ t) = CHR ''>'' # unescape t"
  by (simp add: unescape_def esc_simps)

lemma unescape_amp: "unescape (esc_amp @ t) = CHR ''&'' # unescape t"
  by (simp add: unescape_def esc_simps)

lemma prefix_esc_split:
  "prefix esc_lt (x # xs) \<Longrightarrow> x # xs = esc_lt @ drop 5 xs"
  "prefix esc_gt (x # xs) \<Longrightarrow> x # xs = esc_gt @ drop 5 xs"
  "prefix esc_amp (x # xs) \<Longrightarrow> x # xs = esc_amp @ drop 5 xs"
  by (auto simp: prefix_def esc_simps)

lemma prefix_unescape_iff:
  assumes "plain_tail p"
  shows "prefix p (unescape xs) \<longleftrightarrow> prefix p xs"
proof -
  have 1: "prefix p (bytes_Replace xs esc_lt ''<'') \<longleftrightarrow> prefix p xs" for xs
    using assms by (intro prefix_Replace_iff) (simp_all add: plain_tail_def esc_simps)
  have 2: "prefix p (bytes_Replace xs esc_gt ''>'') \<longleftrightarrow> prefix p xs" for xs
    using assms by (intro prefix_Replace_iff) (simp_all add: plain_tail_def esc_simps)
  have 3: "prefix p (bytes_Replace xs esc_amp ''&'') \<longleftrightarrow> prefix p xs" for xs
    using assms by (intro prefix_Replace_iff) (simp_all add: plain_tail_def esc_simps)
  show ?thesis by (simp add: unescape_def 1 2 3)
qed

lemma prefix_esc_Cons:
  "prefix esc_lt (x # ys) \<longleftrightarrow> x = CHR 0x5C \<and> prefix ''u003c'' ys"
  "prefix esc_gt (x # ys) \<longleftrightarrow> x = CHR 0x5C \<and> prefix ''u003e'' ys"
  "prefix esc_amp (x # ys) \<longleftrightarrow> x = CHR 0x5C \<and> prefix ''u0026'' ys"
  by (auto simp: esc_simps)

lemma plain_tails [simp]:
  "plain_tail ''u003c''" "plain_tail ''u003e''" "plain_tail ''u0026''"
  by (simp_all add: plain_tail_def)

lemma unescape_nomatch:
  assumes "\<not> prefix esc_lt (x # xs)" "\<not> prefix esc_gt (x # xs)" "\<not> prefix esc_amp (x # xs)"
  shows "unescape (x # xs) = x # unescape xs"
proof -
  let ?a = "bytes_Replace xs esc_lt ''<''"
  let ?b = "bytes_Replace ?a esc_gt ''>''"
  have pa: "prefix p ?a \<longleftrightarrow> prefix p xs" if "plain_tail p" for p
    using that by (intro prefix_Replace_iff) (simp_all add: plain_tail_def esc_simps)
  have pb: "prefix p ?b \<longleftrightarrow> prefix p ?a" if "plain_tail p" for p
    using that by (intro prefix_Replace_iff) (simp_all add: plain_tail_def esc_simps)
  have 1: "bytes_Replace (x # xs) esc_lt ''<'' = x # ?a"
    using assms(1) by simp
  have "\<not> prefix esc_gt (x # ?a)"
    using assms(2) by (simp add: prefix_esc_Cons pa)
  then have 2: "bytes_Replace (x # ?a) esc_gt ''>'' = x # ?b"
    by simp
  have "\<not> prefix esc_amp (x # ?b)"
    using assms(3) by (simp add: prefix_esc_Cons pa pb)
  then have 3: "bytes_Replace (x # ?b) esc_amp ''&'' = x # bytes_Replace ?b esc_amp ''&''"
    by simp
  show ?thesis by (simp only: unescape_def 1 2 3)
qed

lemma unescape_eq_unescape_all: "unescape s = unescape_all s"
proof (induction s rule: unescape_all.induct)
  case 1
  show ?case by (simp add: unescape_def)
next
  case (2 x xs)
  show ?case
  proof (cases "prefix esc_lt (x # xs)")
    case True
    with prefix_esc_split(1) have "unescape (x # xs) = unescape (esc_lt @ drop 5 xs)"
      by metis
    with True 2(1) show ?thesis by (simp add: unescape_lt)
  next
    case nlt: False
    show ?thesis
    proof (cases "prefix esc_gt (x # xs)")
      case True
      with prefix_esc_split(2) have "unescape (x # xs) = unescape (esc_gt @ drop 5 xs)"
        by metis
      with nlt True 2(2) show ?thesis by (simp add: unescape_gt)
    next
      case ngt: False
      show ?thesis
      proof (cases "prefix esc_amp (x # xs)")
        case True
        with prefix_esc_split(3) have "unescape (x # xs) = unescape (esc_amp @ drop 5 xs)"
          by metis
        with nlt ngt True 2(3) show ?thesis by (simp add: unescape_amp)
      next
        case False
        with nlt ngt 2(4) show ?thesis by (simp add: unescape_nomatch)
      qed
    qed
  qed
qed

lemma unescape_all_not_prefix:
  "\<not> prefix esc_lt (unescape_all s)" "\<not> prefix esc_gt (unescape_all s)"
  "\<not> prefix esc_amp (unescape_all s)"
proof -
  have t: "prefix p (unescape_all xs) \<longleftrightarrow> prefix p xs" if "plain_tail p" for p xs
    using that prefix_unescape_iff [of p xs] by (simp add: unescape_eq_unescape_all)
  have "\<not> prefix esc_lt (unescape_all s) \<and> \<not> prefix esc_gt (unescape_all s)
        \<and> \<not> prefix esc_amp (unescape_all s)"
  proof (cases s)
    case Nil
    then show ?thesis by (simp add: esc_simps)
  next
    case (Cons x xs)
    show ?thesis
    proof (cases "prefix esc_lt (x # xs) \<or> prefix esc_gt (x # xs) \<or> prefix esc_amp (x # xs)")
      case True
      then show ?thesis unfolding Cons by (auto simp: prefix_esc_Cons)
    next
      case False
      then have "unescape_all (x # xs) = x # unescape_all xs" by simp
      with False show ?thesis unfolding Cons by (simp add: prefix_esc_Cons t)
    qed
  qed
  then show "\<not> prefix esc_lt (unescape_all s)" "\<not> prefix esc_gt (unescape_all s)"
    "\<not> prefix esc_amp (unescape_all s)"
    by simp_all
qed

lemma unescape_all_no_escape:
  "\<not> sublist esc_lt (unescape_all s) \<and> \<not> sublist esc_gt (unescape_all s)
   \<and> \<not> sublist esc_amp (unescape_all s)"
proof (induction s rule: unescape_all.induct)
  case 1
  show ?case by (simp add: esc_simps)
next
  case (2 x xs)
  have np: "\<not> prefix esc_lt (unescape_all (x # xs))" "\<not> prefix esc_gt (unescape_all (x # xs))"
    "\<not> prefix esc_amp (unescape_all (x # xs))"
    by (rule unescape_all_not_prefix)+
  show ?case
  proof (cases "prefix esc_lt (x # xs)")
    case True
    with 2(1) np show ?thesis by (simp add: sublist_Cons_right)
  next
    case nlt: False
    show ?thesis
    proof (cases "prefix esc_gt (x # xs)")
      case True
      with nlt 2(2) np show ?thesis by (simp add: sublist_Cons_right)
    next
      case ngt: False
      show ?thesis
      proof (cases "prefix esc_amp (x # xs)")
        case True
        with nlt ngt 2(3) np show ?thesis by (simp add: sublist_Cons_right)
      next
        case False
        with nlt ngt 2(4) np show ?thesis by (simp add: sublist_Cons_right)
      qed
    qed
  qed
qed

lemma sublist_esc_skip:
  "CHR 0x5C \<notin> set p \<Longrightarrow> e \<in> {esc_lt, esc_gt, esc_amp} \<Longrightarrow> sublist e (p @ t) \<Longrightarrow> sublist e t"
proof (induction p)
  case Nil
  then show ?case by simp
next
  case (Cons y p)
  from Cons.prems(1) have y: "y \<noteq> CHR 0x5C" by auto
  from Cons.prems(2) y have "\<not> prefix e (y # p @ t)"
    by (auto simp: prefix_esc_Cons)
  with Cons.prems(3) have "sublist e (p @ t)"
    by (simp add: sublist_Cons_right)
  with Cons show ?case by simp
qed

lemma sublist_esc_drop5:
  assumes "prefix esc_lt (x # xs) \<or> prefix esc_gt (x # xs) \<or> prefix esc_amp (x # xs)"
    and "e \<in> {esc_lt, esc_gt, esc_amp}" and "sublist e xs"
  shows "sublist e (drop 5 xs)"
proof -
  from assms(1) obtain p where p: "xs = p @ drop 5 xs" "CHR 0x5C \<notin> set p"
    by (auto simp: prefix_def esc_simps)
  from assms(3) p(1) have "sublist e (p @ drop 5 xs)" by simp
  with p(2) assms(2) show ?thesis by (rule sublist_esc_skip)
qed

lemma esc_exclusive:
  "prefix esc_lt s \<Longrightarrow> \<not> prefix esc_gt s \<and> \<not> prefix esc_amp s"
  "prefix esc_gt s \<Longrightarrow> \<not> prefix esc_lt s \<and> \<not> prefix esc_amp s"
  "prefix esc_amp s \<Longrightarrow> \<not> prefix esc_lt s \<and> \<not> prefix esc_gt s"
  by (auto simp: esc_simps prefix_def)

lemma unescape_all_literal:
  "(sublist esc_lt s \<longrightarrow> CHR ''<'' \<in> set (unescape_all s))
   \<and> (sublist esc_gt s \<longrightarrow> CHR ''>'' \<in> set (unescape_all s))
   \<and> (sublist esc_amp s \<longrightarrow> CHR ''&'' \<in> set (unescape_all s))"
proof (induction s rule: unescape_all.induct)
  case 1
  show ?case by (simp add: esc_simps)
next
  case (2 x xs)
  show ?case
  proof (cases "prefix esc_lt (x # xs) \<or> prefix esc_gt (x # xs) \<or> prefix esc_amp (x # xs)")
    case m: True
    have d: "sublist e (drop 5 xs)" if "e \<in> {esc_lt, esc_gt, esc_amp}" and "sublist e xs" for e
      using m that by (rule sublist_esc_drop5)
    show ?thesis
    proof (cases "prefix esc_lt (x # xs)")
      case True
      note ex = esc_exclusive(1) [OF True]
      from True have u: "unescape_all (x # xs) = CHR ''<'' # unescape_all (drop 5 xs)" by simp
      have "sublist esc_gt (x # xs) \<longrightarrow> CHR ''>'' \<in> set (unescape_all (drop 5 xs))"
        using ex 2(1) [OF True] d [of esc_gt] by (auto simp: sublist_Cons_right)
      moreover have "sublist esc_amp (x # xs) \<longrightarrow> CHR ''&'' \<in> set (unescape_all (drop 5 xs))"
        using ex 2(1) [OF True] d [of esc_amp] by (auto simp: sublist_Cons_right)
      ultimately show ?thesis unfolding u by simp
    next
      case nlt: False
      show ?thesis
      proof (cases "prefix esc_gt (x # xs)")
        case True
        note ex = esc_exclusive(2) [OF True]
        from nlt True have u: "unescape_all (x # xs) = CHR ''>'' # unescape_all (drop 5 xs)"
          by simp
        have "sublist esc_lt (x # xs) \<longrightarrow> CHR ''<'' \<in> set (unescape_all (drop 5 xs))"
          using ex 2(2) [OF nlt True] d [of esc_lt] by (auto simp: sublist_Cons_right)
        moreover have "sublist esc_amp (x # xs) \<longrightarrow> CHR ''&'' \<in> set (unescape_all (drop 5 xs))"
          using ex 2(2) [OF nlt True] d [of esc_amp] by (auto simp: sublist_Cons_right)
        ultimately show ?thesis unfolding u by simp
      next
        case ngt: False
        with m nlt have True: "prefix esc_amp (x # xs)" by simp
        note ex = esc_exclusive(3) [OF True]
        from nlt ngt True have u: "unescape_all (x # xs) = CHR ''&'' # unescape_all (drop 5 xs)"
          by simp
        have "sublist esc_lt (x # xs) \<longrightarrow> CHR ''<'' \<in> set (unescape_all (drop 5 xs))"
          using ex 2(3) [OF nlt ngt True] d [of esc_lt] by (auto simp: sublist_Cons_right)
        moreover have "sublist esc_gt (x # xs) \<longrightarrow> CHR ''>'' \<in> set (unescape_all (drop 5 xs))"
          using ex 2(3) [OF nlt ngt True] d [of esc_gt] by (auto simp: sublist_Cons_right)
        ultimately show ?thesis unfolding u by simp
      qed
    qed
  next
    case False
    then have n: "\<not> prefix esc_lt (x # xs)" "\<not> prefix esc_gt (x # xs)"
      "\<not> prefix esc_amp (x # xs)"
      by simp_all
    then have u: "unescape_all (x # xs) = x # unescape_all xs" by simp
    from n 2(4) [OF n] show ?thesis unfolding u by (auto simp: sublist_Cons_right)
  qed
qed

lemma unescape_snoc_newline: "unescape (r @ [newline]) = unescape r @ [newline]"
  by (simp add: unescape_def Replace_snoc esc_simps newline_def)

lemma unescape_last:
  assumes "r \<noteq> []" "last r \<noteq> newline"
  shows "unescape r \<noteq> [] \<and> last (unescape r) \<noteq> newline"
proof -
  have 1: "bytes_Replace r esc_lt ''<'' \<noteq> [] \<and> last (bytes_Replace r esc_lt ''<'') \<noteq> newline"
    using assms by (intro Replace_last) (simp_all add: newline_def)
  then have 2: "bytes_Replace (bytes_Replace r esc_lt ''<'') esc_gt ''>'' \<noteq> []
      \<and> last (bytes_Replace (bytes_Replace r esc_lt ''<'') esc_gt ''>'') \<noteq> newline"
    by (intro Replace_last) (simp_all add: newline_def)
  then show ?thesis unfolding unescape_def
    by (intro Replace_last) (simp_all add: newline_def)
qed

lemma trailing_newlines_snoc:
  "trailing_newlines (xs @ [newline]) = Suc (trailing_newlines xs)"
  by (simp add: trailing_newlines_def)

lemma trailing_newlines_none:
  assumes "xs \<noteq> []" "last xs \<noteq> newline"
  shows "trailing_newlines (p @ xs) = 0"
proof (cases xs rule: rev_cases)
  case Nil
  with assms(1) show ?thesis by simp
next
  case (snoc ys y)
  with assms(2) show ?thesis by (simp add: trailing_newlines_def)
qed

lemma payload_header_events [simp]: "concat (map payload (header_events cap c st)) = []"
  by (cases cap) (simp_all add: header_events_def)

lemma payload_prefix_events [simp]: "concat (map payload (prefix_events p)) = p"
  by (simp add: prefix_events_def)

lemma JSON_body_sent:
  "\<not> StreamingJSON j \<Longrightarrow> json_serialize env (JSON.Indent j) v = (r, None)
     \<Longrightarrow> body_sent w (fst (JSON_Render env j w v)) = JSON.Prefix j @ JSON_payload j r"
  by (simp add: body_sent_def JSON_events)

lemma XML_body_sent:
  "xml_serialize env (XML.Indent x) v = (r, None)
     \<Longrightarrow> body_sent w (fst (XML_Render env x w v))
          = XML.Prefix x @ (if XML.Indent x then r @ [newline] else r)"
  by (simp add: body_sent_def XML_events)

lemma JSON_payload_newlines:
  assumes "r \<noteq> []" "last r \<noteq> newline"
  shows "trailing_newlines (p @ JSON_payload j r) = (if JSON.Indent j then 1 else 0)"
proof -
  have u: "trailing_newlines (p @ unescape r) = 0"
    using unescape_last [OF assms] by (simp add: trailing_newlines_none)
  have n: "trailing_newlines (p @ r) = 0"
    using assms by (simp add: trailing_newlines_none)
  have s: "trailing_newlines (p @ ys @ [newline]) = Suc (trailing_newlines (p @ ys))" for ys
    using trailing_newlines_snoc [of "p @ ys"] by simp
  show ?thesis
    by (simp add: JSON_payload_def unescape_snoc_newline s u n)
qed

lemma ex_serialize_indent [simp]:
  "json_serialize ex_stdlib True (OtherVal RecA1)
     = (''{'' @ newline # ''  \"a\": 1'' @ newline # ''}'', None)"
  "xml_serialize ex_stdlib True (OtherVal RecA1)
     = (''<R>'' @ newline # ''  <a>1</a>'' @ newline # ''</R>'', None)"
  by (simp_all add: json_serialize_def xml_serialize_def ex_stdlib_def ex_json_indent_def
      ex_xml_indent_def)

lemma ex_serialize_Markup [simp]:
  "json_serialize ex_stdlib False (OtherVal Markup) = (ex_markup_json, None)"
  by (simp add: json_serialize_def ex_stdlib_def ex_json_def)

lemma ex_markup_escapes:
  "sublist esc_lt ex_markup_json" "sublist esc_gt ex_markup_json" "sublist esc_amp ex_markup_json"
  by (simp_all add: ex_markup_json_def esc_simps sublist_Cons_right)

lemma ex_markup_unescaped: "unescape_all ex_markup_json = ''\"<b>&\"''"
  by (simp add: ex_markup_json_def esc_simps)

lemma unescape_all_snoc_newline: "unescape_all (r @ [newline]) = unescape_all r @ [newline]"
  using unescape_snoc_newline [of r] by (simp add: unescape_eq_unescape_all)

section \<open>The claims about the serialized body\<close>

subsection \<open>C6: the newline after indented output\<close>

lemma ex_serialize_Trailer [simp]:
  "xml_serialize ex_stdlib b (OtherVal Trailer) = (''<NL>x</NL>'' @ [newline], None)"
  by (simp add: xml_serialize_def ex_stdlib_def ex_xml_def ex_xml_indent_def)

text \<open>
  C6 says that for every encodable value the indented output ends in exactly one newline
  and the output without indentation in none. The renderer appends its newline to
  whatever the serializer returns and adds nothing else: for the value whose
  \<^verbatim>\<open>MarshalXML\<close> ends its output with a newline, both XML renders succeed, the indented
  body ends in two newlines and the body without indentation ends in one.
\<close>

theorem indent_newline_counterexample:
  "snd (XML_Render ex_stdlib (ex_XML\<lparr>XML.Indent := True\<rparr>) ex_buffer (OtherVal Trailer))
     = Return None
   \<and> trailing_newlines (body_sent ex_buffer
        (fst (XML_Render ex_stdlib (ex_XML\<lparr>XML.Indent := True\<rparr>) ex_buffer (OtherVal Trailer))))
     = 2
   \<and> snd (XML_Render ex_stdlib ex_XML ex_buffer (OtherVal Trailer)) = Return None
   \<and> trailing_newlines (body_sent ex_buffer
        (fst (XML_Render ex_stdlib ex_XML ex_buffer (OtherVal Trailer))))
     = 1"
  by (simp add: XML_Render_ok_ret XML_body_sent trailing_newlines_def newline_def)

text \<open>
  C6, amended: for every encodable value whose serialization is not empty and does not
  itself end in a newline (a document that ends in its closing delimiter), the body of
  buffered JSON and of XML ends in exactly one newline when the indent option is set and
  in none when it is not; this holds with and without a prefix and with and without
  unescaping.
\<close>

theorem indent_trailing_newline:
  "(\<not> StreamingJSON j \<and> json_serialize env (JSON.Indent j) v = (r, None)
      \<and> r \<noteq> [] \<and> last r \<noteq> newline
      \<longrightarrow> trailing_newlines (body_sent w (fst (JSON_Render env j w v)))
            = (if JSON.Indent j then 1 else 0))
   \<and> (xml_serialize env (XML.Indent x) v = (r', None) \<and> r' \<noteq> [] \<and> last r' \<noteq> newline
      \<longrightarrow> trailing_newlines (body_sent w (fst (XML_Render env x w v)))
            = (if XML.Indent x then 1 else 0))"
proof -
  have s: "trailing_newlines (p @ ys @ [newline]) = Suc (trailing_newlines (p @ ys))" for p ys
    using trailing_newlines_snoc [of "p @ ys"] by simp
  show ?thesis
    by (simp add: JSON_body_sent XML_body_sent JSON_payload_newlines trailing_newlines_none s)
qed

text \<open>C6, the amended statement for the record, indented and not, in JSON and in XML.\<close>

theorem indent_trailing_newline_witness:
  "trailing_newlines (body_sent ex_buffer
      (fst (JSON_Render ex_stdlib (ex_JSON\<lparr>JSON.Indent := True\<rparr>) ex_buffer (OtherVal RecA1)))) = 1
   \<and> trailing_newlines (body_sent ex_buffer
      (fst (JSON_Render ex_stdlib ex_JSON ex_buffer (OtherVal RecA1)))) = 0
   \<and> trailing_newlines (body_sent ex_buffer
      (fst (XML_Render ex_stdlib (ex_XML\<lparr>XML.Indent := True\<rparr>) ex_buffer (OtherVal RecA1)))) = 1
   \<and> trailing_newlines (body_sent ex_buffer
      (fst (XML_Render ex_stdlib ex_XML ex_buffer (OtherVal RecA1)))) = 0"
proof -
  note a = indent_trailing_newline [where env = ex_stdlib and j = "ex_JSON\<lparr>JSON.Indent := True\<rparr>"
      and x = "ex_XML\<lparr>XML.Indent := True\<rparr>" and v = "OtherVal RecA1" and w = ex_buffer
      and r = "''{'' @ newline # ''  \"a\": 1'' @ newline # ''}''"
      and r' = "''<R>'' @ newline # ''  <a>1</a>'' @ newline # ''</R>''"]
  note b = indent_trailing_newline [where env = ex_stdlib and j = ex_JSON
      and x = ex_XML and v = "OtherVal RecA1" and w = ex_buffer
      and r = "''{\"a\":1}''" and r' = "''<R><a>1</a></R>''"]
  have n: "CHR ''}'' \<noteq> newline" "CHR ''>'' \<noteq> newline"
    by (simp_all add: newline_def)
  show ?thesis using a b n by simp
qed

subsection \<open>C7: the unescape option\<close>

lemma sublist_in_body: "sublist e r \<Longrightarrow> sublist e (p @ r @ s)"
  by (auto simp: sublist_def) (metis append.assoc)

text \<open>
  C7: for a value the serializer accepts, with serialization \<open>r\<close>, buffered JSON with the
  unescape option sends \<open>r\<close> with every occurrence of the three escape sequences
  replaced by its character: no escape sequence is left in it, and where \<open>r\<close> held the
  escape sequence of a character the body holds that character. Without the option the
  body is \<open>r\<close> itself, so that every escape sequence of \<open>r\<close> is in the body.
\<close>

theorem unescape_option:
  "\<not> StreamingJSON j \<and> json_serialize env (JSON.Indent j) v = (r, None) \<longrightarrow>
     (UnEscapeHTML j \<longrightarrow>
        body_sent w (fst (JSON_Render env j w v))
          = JSON.Prefix j @ unescape_all r @ (if JSON.Indent j then [newline] else [])
      \<and> \<not> sublist esc_lt (unescape_all r)
      \<and> \<not> sublist esc_gt (unescape_all r)
      \<and> \<not> sublist esc_amp (unescape_all r)
      \<and> (sublist esc_lt r \<longrightarrow> CHR ''<'' \<in> set (body_sent w (fst (JSON_Render env j w v))))
      \<and> (sublist esc_gt r \<longrightarrow> CHR ''>'' \<in> set (body_sent w (fst (JSON_Render env j w v))))
      \<and> (sublist esc_amp r \<longrightarrow> CHR ''&'' \<in> set (body_sent w (fst (JSON_Render env j w v)))))
   \<and> (\<not> UnEscapeHTML j \<longrightarrow>
        body_sent w (fst (JSON_Render env j w v))
          = JSON.Prefix j @ r @ (if JSON.Indent j then [newline] else [])
      \<and> (sublist e r \<longrightarrow> sublist e (body_sent w (fst (JSON_Render env j w v)))))"
proof -
  have p: "JSON_payload j r =
      (if UnEscapeHTML j then unescape_all r else r) @ (if JSON.Indent j then [newline] else [])"
    by (simp add: JSON_payload_def unescape_all_snoc_newline unescape_eq_unescape_all)
  show ?thesis
    using unescape_all_no_escape [of r] unescape_all_literal [of r]
    by (auto simp: JSON_body_sent p sublist_in_body)
qed

text \<open>
  C7 for the string \<^verbatim>\<open><b>&\<close>, whose serialization holds the three escape sequences.
\<close>

theorem unescape_option_witness:
  "body_sent ex_buffer
     (fst (JSON_Render ex_stdlib (ex_JSON\<lparr>UnEscapeHTML := True\<rparr>) ex_buffer (OtherVal Markup)))
     = ''\"<b>&\"''
   \<and> CHR ''<'' \<in> set (body_sent ex_buffer
       (fst (JSON_Render ex_stdlib (ex_JSON\<lparr>UnEscapeHTML := True\<rparr>) ex_buffer (OtherVal Markup))))
   \<and> body_sent ex_buffer (fst (JSON_Render ex_stdlib ex_JSON ex_buffer (OtherVal Markup)))
     = ex_markup_json
   \<and> sublist esc_lt (body_sent ex_buffer
       (fst (JSON_Render ex_stdlib ex_JSON ex_buffer (OtherVal Markup))))"
proof -
  note a = unescape_option [where env = ex_stdlib and j = "ex_JSON\<lparr>UnEscapeHTML := True\<rparr>"
      and v = "OtherVal Markup" and w = ex_buffer and e = esc_lt and r = ex_markup_json]
  note b = unescape_option [where env = ex_stdlib and j = ex_JSON
      and v = "OtherVal Markup" and w = ex_buffer and e = esc_lt and r = ex_markup_json]
  from a have a1: "body_sent ex_buffer
     (fst (JSON_Render ex_stdlib (ex_JSON\<lparr>UnEscapeHTML := True\<rparr>) ex_buffer (OtherVal Markup)))
     = ''\"<b>&\"''
     \<and> CHR ''<'' \<in> set (body_sent ex_buffer
       (fst (JSON_Render ex_stdlib (ex_JSON\<lparr>UnEscapeHTML := True\<rparr>) ex_buffer (OtherVal Markup))))"
    by (simp add: ex_markup_unescaped ex_markup_escapes)
  from b have b1: "body_sent ex_buffer (fst (JSON_Render ex_stdlib ex_JSON ex_buffer (OtherVal Markup)))
     = ex_markup_json
     \<and> sublist esc_lt (body_sent ex_buffer
       (fst (JSON_Render ex_stdlib ex_JSON ex_buffer (OtherVal Markup))))"
    by (simp add: ex_markup_escapes)
  from a1 b1 show ?thesis by blast
qed

end
